theory Spec2Isabelle
  imports Complex_Main
begin

section \<open>Numeric values\<close>

text \<open>
  The program computes with numpy floats.  A float is modelled as a finite real, one of
  the two infinities, or NaN.  Arithmetic on finite values is exact (rounding and overflow
  are not modelled); the special values follow IEEE 754 as numpy applies it: NaN is
  absorbing, every ordered comparison with NaN is false, \<open>x / 0\<close> is an infinity
  or NaN and never raises.  Signed zeros are not distinguished.
\<close>

datatype pyfloat = Fin real | PInf | NInf | NaN

definition isnan :: "pyfloat \<Rightarrow> bool" where
  "isnan v = (v = NaN)"

definition isinf :: "pyfloat \<Rightarrow> bool" where
  "isinf v = (v = PInf \<or> v = NInf)"

fun fneg :: "pyfloat \<Rightarrow> pyfloat" where
  "fneg (Fin a) = Fin (- a)"
| "fneg PInf = NInf"
| "fneg NInf = PInf"
| "fneg NaN = NaN"

fun fadd :: "pyfloat \<Rightarrow> pyfloat \<Rightarrow> pyfloat" where
  "fadd NaN _ = NaN"
| "fadd _ NaN = NaN"
| "fadd (Fin a) (Fin b) = Fin (a + b)"
| "fadd PInf NInf = NaN"
| "fadd NInf PInf = NaN"
| "fadd PInf _ = PInf"
| "fadd _ PInf = PInf"
| "fadd NInf _ = NInf"
| "fadd _ NInf = NInf"

definition fsub :: "pyfloat \<Rightarrow> pyfloat \<Rightarrow> pyfloat" where
  "fsub a b = fadd a (fneg b)"

fun fmul :: "pyfloat \<Rightarrow> pyfloat \<Rightarrow> pyfloat" where
  "fmul NaN _ = NaN"
| "fmul _ NaN = NaN"
| "fmul (Fin a) (Fin b) = Fin (a * b)"
| "fmul (Fin a) PInf = (if a = 0 then NaN else if 0 < a then PInf else NInf)"
| "fmul (Fin a) NInf = (if a = 0 then NaN else if 0 < a then NInf else PInf)"
| "fmul PInf (Fin b) = (if b = 0 then NaN else if 0 < b then PInf else NInf)"
| "fmul NInf (Fin b) = (if b = 0 then NaN else if 0 < b then NInf else PInf)"
| "fmul PInf PInf = PInf"
| "fmul PInf NInf = NInf"
| "fmul NInf PInf = NInf"
| "fmul NInf NInf = PInf"

fun fdiv :: "pyfloat \<Rightarrow> pyfloat \<Rightarrow> pyfloat" where
  "fdiv NaN _ = NaN"
| "fdiv _ NaN = NaN"
| "fdiv (Fin a) (Fin b) =
     (if b = 0 then (if a = 0 then NaN else if 0 < a then PInf else NInf)
      else Fin (a / b))"
| "fdiv (Fin a) PInf = Fin 0"
| "fdiv (Fin a) NInf = Fin 0"
| "fdiv PInf (Fin b) = (if 0 \<le> b then PInf else NInf)"
| "fdiv NInf (Fin b) = (if 0 \<le> b then NInf else PInf)"
| "fdiv PInf PInf = NaN"
| "fdiv PInf NInf = NaN"
| "fdiv NInf PInf = NaN"
| "fdiv NInf NInf = NaN"

fun flt :: "pyfloat \<Rightarrow> pyfloat \<Rightarrow> bool" where
  "flt (Fin a) (Fin b) = (a < b)"
| "flt (Fin a) PInf = True"
| "flt NInf (Fin b) = True"
| "flt NInf PInf = True"
| "flt _ _ = False"

definition fgt :: "pyfloat \<Rightarrow> pyfloat \<Rightarrow> bool" where
  "fgt a b = flt b a"

definition feq :: "pyfloat \<Rightarrow> pyfloat \<Rightarrow> bool" where
  "feq a b = (a \<noteq> NaN \<and> b \<noteq> NaN \<and> a = b)"

definition fne :: "pyfloat \<Rightarrow> pyfloat \<Rightarrow> bool" where
  "fne a b = (\<not> feq a b)"

fun fabs :: "pyfloat \<Rightarrow> pyfloat" where
  "fabs (Fin a) = Fin \<bar>a\<bar>"
| "fabs PInf = PInf"
| "fabs NInf = PInf"
| "fabs NaN = NaN"

fun fsqrt :: "pyfloat \<Rightarrow> pyfloat" where
  "fsqrt (Fin a) = (if a < 0 then NaN else Fin (sqrt a))"
| "fsqrt PInf = PInf"
| "fsqrt NInf = NaN"
| "fsqrt NaN = NaN"

definition fsum :: "pyfloat list \<Rightarrow> pyfloat" where
  "fsum xs = foldl fadd (Fin 0) xs"

definition finite_float :: "pyfloat \<Rightarrow> bool" where
  \<comment> \<open>\<open>np.isfinite\<close>\<close>
  "finite_float v = (\<not> isnan v \<and> \<not> isinf v)"

section \<open>Vectors and matrices\<close>

text \<open>
  A vector is the list of its values in the order of its name list; the program's name
  lists are taken to hold each name once, so that a lookup by name is the lookup at the
  name's position.  A matrix carries its shape, as a numpy array does (a matrix with no
  rows or no columns still has the other dimension).
\<close>

type_synonym vec = "pyfloat list"

datatype mat = Mat (nrows: nat) (ncols: nat) (rows: "pyfloat list list")

definition entry :: "mat \<Rightarrow> nat \<Rightarrow> nat \<Rightarrow> pyfloat" where
  "entry M i j = rows M ! i ! j"

definition mk_mat :: "nat \<Rightarrow> nat \<Rightarrow> (nat \<Rightarrow> nat \<Rightarrow> pyfloat) \<Rightarrow> mat" where
  "mk_mat n m f = Mat n m (map (\<lambda>i. map (\<lambda>j. f i j) [0..<m]) [0..<n])"

definition mat_map :: "(pyfloat \<Rightarrow> pyfloat) \<Rightarrow> mat \<Rightarrow> mat" where
  "mat_map f M = Mat (nrows M) (ncols M) (map (map f) (rows M))"

definition mat_any :: "(pyfloat \<Rightarrow> bool) \<Rightarrow> mat \<Rightarrow> bool" where
  "mat_any p M = list_ex (list_ex p) (rows M)"

definition mat_all :: "(pyfloat \<Rightarrow> bool) \<Rightarrow> mat \<Rightarrow> bool" where
  "mat_all p M = list_all (list_all p) (rows M)"

definition nan_like :: "mat \<Rightarrow> mat" where
  \<comment> \<open>\<open>np.zeros_like(A) * np.nan\<close>\<close>
  "nan_like A = mat_map (\<lambda>v. fmul (Fin 0) NaN) A"

definition transpose_mat :: "mat \<Rightarrow> mat" where
  "transpose_mat M = mk_mat (ncols M) (nrows M) (\<lambda>i j. entry M j i)"

definition dot :: "mat \<Rightarrow> mat \<Rightarrow> mat" where
  "dot A B = mk_mat (nrows A) (ncols B)
     (\<lambda>i j. fsum (map (\<lambda>k. fmul (entry A i k) (entry B k j)) [0..<ncols A]))"

definition mat_vec :: "mat \<Rightarrow> vec \<Rightarrow> vec" where
  "mat_vec A v = map (\<lambda>i. fsum (map (\<lambda>k. fmul (entry A i k) (v ! k)) [0..<ncols A])) [0..<nrows A]"

definition vec_mat :: "vec \<Rightarrow> mat \<Rightarrow> vec" where
  "vec_mat v A = map (\<lambda>j. fsum (map (\<lambda>k. fmul (v ! k) (entry A k j)) [0..<nrows A])) [0..<ncols A]"

definition vec_dot :: "vec \<Rightarrow> vec \<Rightarrow> pyfloat" where
  "vec_dot u v = fsum (map (\<lambda>k. fmul (u ! k) (v ! k)) [0..<length u])"

definition vec_add :: "vec \<Rightarrow> vec \<Rightarrow> vec" where
  "vec_add u v = map (\<lambda>k. fadd (u ! k) (v ! k)) [0..<length u]"

definition vec_sub :: "vec \<Rightarrow> vec \<Rightarrow> vec" where
  "vec_sub u v = map (\<lambda>k. fsub (u ! k) (v ! k)) [0..<length u]"

definition mat_add :: "mat \<Rightarrow> mat \<Rightarrow> mat" where
  "mat_add A B = mk_mat (nrows A) (ncols A) (\<lambda>i j. fadd (entry A i j) (entry B i j))"

definition mat_sub :: "mat \<Rightarrow> mat \<Rightarrow> mat" where
  "mat_sub A B = mk_mat (nrows A) (ncols A) (\<lambda>i j. fsub (entry A i j) (entry B i j))"

definition mat_scale :: "pyfloat \<Rightarrow> mat \<Rightarrow> mat" where
  "mat_scale c A = mat_map (fmul c) A"

definition identity :: "nat \<Rightarrow> mat" where
  "identity n = mk_mat n n (\<lambda>i j. if i = j then Fin 1 else Fin 0)"

definition diag :: "mat \<Rightarrow> vec" where
  "diag A = map (\<lambda>k. entry A k k) [0..<min (nrows A) (ncols A)]"

definition trace :: "mat \<Rightarrow> pyfloat" where
  "trace A = fsum (diag A)"

section \<open>The numeric libraries\<close>

text \<open>
  numpy's and scipy's linear algebra is not part of the program.  The routines the
  program calls are parameters of every definition that uses them:
  \<open>np.finfo(dtype).eps\<close>, \<open>np.linalg.cond\<close>, \<open>np.linalg.inv\<close>,
  \<open>np.linalg.det\<close>, \<open>np.log\<close>, \<open>scipy.linalg.eig(S, left=True, right=False)\<close>
  (the eigenvalues and the matrix whose columns are the left eigenvectors) and
  \<open>scipy.stats.chi2.isf\<close>.
\<close>

record numlib =
  np_eps :: pyfloat
  np_cond :: "mat \<Rightarrow> pyfloat"
  np_inv :: "mat \<Rightarrow> mat"
  np_det :: "mat \<Rightarrow> pyfloat"
  np_log :: "pyfloat \<Rightarrow> pyfloat"
  scipy_eig :: "mat \<Rightarrow> vec \<times> mat"
  chi2_isf :: "pyfloat \<Rightarrow> nat \<Rightarrow> pyfloat"

datatype error =
  ValueError | AssertionError | TypeError | KeyError | IndexError | AttributeError
  | ZeroDivisionError

datatype warning = FoundNanInMatrix | FoundSingularMatrix

text \<open>
  \<open>invertMatrix(A, raise_error=True)\<close>.  A warning issued by \<open>warnings.warn\<close>
  is returned beside the value.
\<close>

definition invertMatrix :: "numlib \<Rightarrow> mat \<Rightarrow> bool \<Rightarrow> error + mat \<times> warning list" where
  "invertMatrix nl A raise_error =
     (if mat_any isnan A then Inr (nan_like A, [FoundNanInMatrix])
      else if fgt (np_cond nl A) (fdiv (Fin 1) (np_eps nl)) then
        (if raise_error then Inl ValueError
         else Inr (nan_like A, [FoundSingularMatrix]))
      else Inr (np_inv nl A, []))"

text \<open>
  The library routines on one-by-one matrices, with the machine epsilon of float64, for
  evaluating the program on one-dimensional problems.
\<close>

definition cond_1x1 :: "mat \<Rightarrow> pyfloat" where
  "cond_1x1 M = (case entry M 0 0 of
       Fin a \<Rightarrow> if a = 0 then PInf else Fin 1
     | PInf \<Rightarrow> NaN | NInf \<Rightarrow> NaN | NaN \<Rightarrow> NaN)"

definition inv_1x1 :: "mat \<Rightarrow> mat" where
  "inv_1x1 M = mat_map (\<lambda>v. fdiv (Fin 1) v) M"

definition det_1x1 :: "mat \<Rightarrow> pyfloat" where
  "det_1x1 M = entry M 0 0"

fun log_float :: "pyfloat \<Rightarrow> pyfloat" where
  "log_float (Fin a) = (if 0 < a then Fin (ln a) else if a = 0 then NInf else NaN)"
| "log_float PInf = PInf"
| "log_float NInf = NaN"
| "log_float NaN = NaN"

definition eig_1x1 :: "mat \<Rightarrow> vec \<times> mat" where
  "eig_1x1 M = ([entry M 0 0], Mat 1 1 [[Fin 1]])"

definition numlib_1x1 :: "(pyfloat \<Rightarrow> nat \<Rightarrow> pyfloat) \<Rightarrow> numlib" where
  "numlib_1x1 isf = \<lparr> np_eps = Fin (1 / 2 ^ 52), np_cond = cond_1x1, np_inv = inv_1x1,
     np_det = det_1x1, np_log = log_float, scipy_eig = eig_1x1, chi2_isf = isf \<rparr>"

section \<open>The retrieval problem\<close>

text \<open>
  The constructor's arguments, fixed for the life of the object.  \<open>disturbance\<close> is a
  float, a dict from names to floats, or a value of another type; a dict is a partial map.
  The forward model is a function from the values of \<open>x_vars + b_vars\<close> to the values
  of \<open>y_vars\<close>.
\<close>

datatype disturbance_spec =
  DisturbanceFloat pyfloat | DisturbanceDict "string \<rightharpoonup> pyfloat" | DisturbanceOther

record problem =
  x_vars :: "string list"
  x_a :: vec
  S_a :: mat
  y_vars :: "string list"
  y_obs :: vec
  S_y :: mat
  forward :: "vec \<Rightarrow> vec"
  x_truth :: "vec option"
  b_vars :: "string list"
  b_p :: vec
  S_b :: mat
  x_lowerLimit :: "string \<rightharpoonup> pyfloat"
  x_upperLimit :: "string \<rightharpoonup> pyfloat"
  useFactorInJac :: bool
  gammaFactor :: "vec option"
  disturbance :: disturbance_spec
  convergenceFactor :: pyfloat

definition x_n :: "problem \<Rightarrow> nat" where
  "x_n p = length (x_vars p)"

definition y_n :: "problem \<Rightarrow> nat" where
  "y_n p = length (y_vars p)"

definition b_n :: "problem \<Rightarrow> nat" where
  "b_n p = length (b_vars p)"

definition x_a_err :: "problem \<Rightarrow> vec" where
  "x_a_err p = map fsqrt (diag (S_a p))"

definition b_p_err :: "problem \<Rightarrow> vec" where
  "b_p_err p = map fsqrt (diag (S_b p))"

section \<open>The Jacobian by finite differences\<close>

definition cols_slice :: "mat \<Rightarrow> nat \<Rightarrow> nat \<Rightarrow> mat" where
  "cols_slice M a b = mk_mat (nrows M) (b - a) (\<lambda>i j. entry M i (a + j))"

definition disturbances_of :: "problem \<Rightarrow> string list \<Rightarrow> error + (string \<rightharpoonup> pyfloat)" where
  "disturbances_of p xb_vars =
     (case disturbance p of
        DisturbanceFloat d \<Rightarrow> Inr (\<lambda>key. if key \<in> set xb_vars then Some d else None)
      | DisturbanceDict m \<Rightarrow> Inr m
      | DisturbanceOther \<Rightarrow> Inl TypeError)"

definition disturbed_value :: "problem \<Rightarrow> pyfloat \<Rightarrow> pyfloat \<Rightarrow> pyfloat \<Rightarrow> pyfloat" where
  "disturbed_value p v d err =
     (if useFactorInJac p then fmul v d else fadd v (fmul d err))"

definition dist_of :: "problem \<Rightarrow> pyfloat \<Rightarrow> pyfloat \<Rightarrow> pyfloat \<Rightarrow> pyfloat" where
  "dist_of p v d err =
     (if useFactorInJac p then fmul v (fsub d (Fin 1)) else fmul d err)"

definition zero_nonfinite :: "pyfloat \<Rightarrow> pyfloat" where
  \<comment> \<open>\<open>jacobian[np.isnan(jacobian) | np.isinf(jacobian)] = 0.\<close>\<close>
  "zero_nonfinite v = (if isnan v \<or> isinf v then Fin 0 else v)"

text \<open>
  \<open>getJacobian(xb, y)\<close>.  Row \<open>k\<close> of \<open>xb_disturbed\<close> is \<open>xb\<close> with its
  \<open>k\<close>-th component disturbed; \<open>y_disturbed\<close> holds the forward model at each row.
  The assertion on \<open>dist\<close> stands inside the loops over \<open>y_vars\<close> and the
  variables, so it is reached only when there is a measurement.
\<close>

definition getJacobian :: "problem \<Rightarrow> vec \<Rightarrow> vec \<Rightarrow> error + mat \<times> mat" where
  "getJacobian p xb y =
     (let xb_vars = x_vars p @ b_vars p;
          xb_err = x_a_err p @ b_p_err p
      in if useFactorInJac p \<and> list_ex (\<lambda>v. feq v (Fin 0)) xb then Inl AssertionError
         else case disturbances_of p xb_vars of
           Inl e \<Rightarrow> Inl e
         | Inr disturbances \<Rightarrow>
             if list_ex (\<lambda>key. disturbances key = None) xb_vars then Inl KeyError
             else
               let ds = map (\<lambda>key. the (disturbances key)) xb_vars;
                   n = length xb_vars;
                   xb_disturbed =
                     map (\<lambda>k. xb[k := disturbed_value p (xb ! k) (ds ! k) (xb_err ! k)]) [0..<n];
                   y_disturbed = map (forward p) xb_disturbed;
                   dists = map (\<lambda>k. dist_of p (xb ! k) (ds ! k) (xb_err ! k)) [0..<n]
               in if \<not> useFactorInJac p \<and> 0 < y_n p \<and> list_ex (\<lambda>d. \<not> fne d (Fin 0)) dists
                  then Inl AssertionError
                  else
                    let jacobian = mk_mat (y_n p) n
                          (\<lambda>r k. fdiv (fsub (y_disturbed ! k ! r) (y ! r)) (dists ! k));
                        jacobian0 = mat_map zero_nonfinite jacobian
                    in Inr (cols_slice jacobian0 0 (x_n p), cols_slice jacobian0 (x_n p) n))"

text \<open>
  The shapes the constructor fixes: it labels \<open>x_a\<close>, \<open>S_a\<close>, \<open>y_obs\<close>,
  \<open>S_y\<close>, \<open>b_p\<close> and \<open>S_b\<close> with the name lists (pandas refuses another
  shape) and asserts \<open>b_n == len(b_p)\<close>.
\<close>

definition wf_mat :: "nat \<Rightarrow> nat \<Rightarrow> mat \<Rightarrow> bool" where
  "wf_mat n m M =
     (nrows M = n \<and> ncols M = m \<and> length (rows M) = n
      \<and> list_all (\<lambda>r. length r = m) (rows M))"

definition well_shaped :: "problem \<Rightarrow> bool" where
  "well_shaped p =
     (length (x_a p) = x_n p \<and> wf_mat (x_n p) (x_n p) (S_a p)
      \<and> length (y_obs p) = y_n p \<and> wf_mat (y_n p) (y_n p) (S_y p)
      \<and> length (b_p p) = b_n p \<and> wf_mat (b_n p) (b_n p) (S_b p))"

section \<open>The retrieval engine\<close>

text \<open>
  An attribute of the object holds \<open>None\<close> (after construction), the integer \<open>0\<close>
  (a cell of a history list allocated as \<open>[0]*maxIter\<close> and not yet written), the scalar
  \<open>np.nan\<close> (the sentinel of a run that did not converge), or a proper value.
  The numeric histories \<open>dgf_i\<close>, \<open>H_i\<close>, \<open>d_i2\<close> and \<open>gam_i\<close> are lists of
  numbers, their unwritten cells the number the source allocates (0, or 1 for \<open>gam_i\<close>).
  Before the first run the source holds \<open>None\<close> in place of each history list; the
  model holds the empty list.  The loop writes cell \<open>i\<close> (and \<open>i + 1\<close> of
  \<open>x_i\<close> and \<open>y_i\<close>) with \<open>i < maxIter\<close>, inside the allocated lists.
  What \<open>print\<close> writes is kept as a list of notices, what \<open>warnings.warn\<close> issues as
  a list of warnings.  The attributes \<open>xb_disturbed\<close> and \<open>y_disturbed\<close>, which
  only \<open>getJacobian\<close> reads, are local to its model.
\<close>

datatype 'a attr = PyNone | PyZero | PyNaN | Val 'a

datatype notice =
    ResetLowerLimit string pyfloat pyfloat nat
  | ResetUpperLimit string pyfloat pyfloat nat
  | ResetNan string pyfloat pyfloat nat
  | Done nat
  | MaximumTimeExceeded nat
  | CriteriaFulfilled nat
  | DegreesOfFreedomZero nat
  | CriteriaNotFulfilled nat
  | DidNotConverge
  | SingularRank nat nat

record engine =
  converged :: bool
  S_a_inv :: "mat attr"
  K_i :: "mat attr list"
  K_b_i :: "mat attr list"
  x_i :: "vec attr list"
  y_i :: "vec attr list"
  dgf_i :: "pyfloat list"
  H_i :: "pyfloat list"
  A_i :: "mat attr list"
  d_i2 :: "pyfloat list"
  S_aposterior_i :: "mat attr list"
  gam_i :: "pyfloat list"
  convI :: "int attr"
  x_op :: "vec attr"
  y_op :: "vec attr"
  S_op :: "mat attr"
  x_op_err :: "vec attr"
  dgf :: "pyfloat attr"
  dgf_x :: "vec attr"
  S_Ep :: "mat attr"
  y_a_cache :: "vec attr"
  chi2Results :: "(pyfloat \<times> pyfloat) list option"
  printed :: "notice list"
  warned :: "warning list"

text \<open>The object as \<open>__init__\<close> leaves it; \<open>chi2Results\<close> is not yet an attribute.\<close>

definition new_engine :: engine where
  "new_engine = \<lparr> converged = False, S_a_inv = PyNone, K_i = [], K_b_i = [], x_i = [],
     y_i = [], dgf_i = [], H_i = [], A_i = [], d_i2 = [], S_aposterior_i = [], gam_i = [],
     convI = PyNone, x_op = PyNone, y_op = PyNone, S_op = PyNone, x_op_err = PyNone,
     dgf = PyNone, dgf_x = PyNone, S_Ep = PyNone, y_a_cache = PyNone, chi2Results = None,
     printed = [], warned = [] \<rparr>"

definition val :: "'a attr \<Rightarrow> error + 'a" where
  "val a = (case a of Val v \<Rightarrow> Inr v | PyNone \<Rightarrow> Inl TypeError | PyZero \<Rightarrow> Inl TypeError
            | PyNaN \<Rightarrow> Inl TypeError)"

subsection \<open>Bound repair of the new state\<close>

text \<open>
  Lines 416 to 445: the three tests on component \<open>jj\<close>, in the source's order, each
  reading the value the one before may have reset.
\<close>

definition repair_component ::
  "problem \<Rightarrow> nat \<Rightarrow> nat \<Rightarrow> string \<Rightarrow> pyfloat \<Rightarrow> pyfloat \<times> notice list" where
  "repair_component p i jj xKey v =
     (let prior = x_a p ! jj;
          (v1, n1) = (case x_lowerLimit p xKey of
                        Some lo \<Rightarrow> if flt v lo then (prior, [ResetLowerLimit xKey v prior i])
                                   else (v, [])
                      | None \<Rightarrow> (v, []));
          (v2, n2) = (case x_upperLimit p xKey of
                        Some up \<Rightarrow> if fgt v1 up then (prior, [ResetUpperLimit xKey v1 prior i])
                                   else (v1, [])
                      | None \<Rightarrow> (v1, []));
          (v3, n3) = (if isnan v2 then (prior, [ResetNan xKey v2 prior i]) else (v2, []))
      in (v3, n1 @ n2 @ n3))"

fun repair_loop :: "problem \<Rightarrow> nat \<Rightarrow> nat list \<Rightarrow> vec \<Rightarrow> notice list \<Rightarrow> vec \<times> notice list" where
  "repair_loop p i [] x ns = (x, ns)"
| "repair_loop p i (jj # js) x ns =
     (let (v, n) = repair_component p i jj (x_vars p ! jj) (x ! jj)
      in repair_loop p i js (x[jj := v]) (ns @ n))"

definition boundRepair :: "problem \<Rightarrow> nat \<Rightarrow> vec \<Rightarrow> vec \<times> notice list" where
  "boundRepair p i x = repair_loop p i [0..<length (x_vars p)] x []"

subsection \<open>One pass of the loop\<close>

definition S_Ep_loop :: "problem \<Rightarrow> mat \<Rightarrow> mat" where
  \<comment> \<open>lines 362 to 369; \<open>S_y.values + 0\<close> when there is no parameter\<close>
  "S_Ep_loop p Kb =
     (if 0 < nrows (S_b p) + ncols (S_b p)
      then mat_add (S_y p) (dot (dot Kb (S_b p)) (transpose_mat Kb))
      else mat_map (\<lambda>v. fadd v (Fin 0)) (S_y p))"

text \<open>
  Lines 359 to 452.  The assertions of lines 372 to 378 compare name lists that are equal by
  construction here.  The forward model is evaluated at the new state before the repair.
\<close>

definition iteration :: "numlib \<Rightarrow> problem \<Rightarrow> nat \<Rightarrow> engine \<Rightarrow> error + engine" where
  "iteration nl p i s =
     (case val (x_i s ! i) of Inl e \<Rightarrow> Inl e | Inr xi \<Rightarrow>
      case val (y_i s ! i) of Inl e \<Rightarrow> Inl e | Inr yi \<Rightarrow>
      case getJacobian p (xi @ b_p p) yi of Inl e \<Rightarrow> Inl e | Inr (Kx, Kb) \<Rightarrow>
      case invertMatrix nl (S_Ep_loop p Kb) True of Inl e \<Rightarrow> Inl e | Inr (S_Ep_inv, w1) \<Rightarrow>
      case val (S_a_inv s) of Inl e \<Rightarrow> Inl e | Inr Sa_inv \<Rightarrow>
      let K = Kx;
          gam = gam_i s ! i;
          KtSK = dot (transpose_mat K) (dot S_Ep_inv K);
          B = mat_add (mat_scale gam Sa_inv) KtSK
      in case invertMatrix nl B True of Inl e \<Rightarrow> Inl e | Inr (B_inv, w2) \<Rightarrow>
      let S_apost = dot (dot B_inv (mat_add (mat_scale (fmul gam gam) Sa_inv) KtSK)) B_inv;
          G = dot B_inv (dot (transpose_mat K) S_Ep_inv);
          A = dot G K;
          x_next = vec_add (x_a p)
             (mat_vec B_inv (mat_vec (transpose_mat K) (mat_vec S_Ep_inv
                (vec_add (vec_sub (y_obs p) yi) (mat_vec K (vec_sub xi (x_a p)))))));
          y_next = forward p (x_next @ b_p p);
          dgf_new = trace A;
          H_new = fmul (Fin (- (1 / 2))) (np_log nl (np_det nl (mat_sub (identity (x_n p)) A)));
          (x_rep, notices) = boundRepair p i x_next;
          dx = vec_sub xi x_rep
      in case invertMatrix nl S_apost True of Inl e \<Rightarrow> Inl e | Inr (S_apost_inv, w3) \<Rightarrow>
        Inr (s\<lparr> K_i := (K_i s)[i := Val Kx],
                K_b_i := (K_b_i s)[i := Val Kb],
                x_i := (x_i s)[Suc i := Val x_rep],
                y_i := (y_i s)[Suc i := Val y_next],
                dgf_i := (dgf_i s)[i := dgf_new],
                H_i := (H_i s)[i := H_new],
                A_i := (A_i s)[i := Val A],
                d_i2 := (d_i2 s)[i := vec_dot (vec_mat dx S_apost_inv) dx],
                S_aposterior_i := (S_aposterior_i s)[i := Val S_apost],
                printed := printed s @ notices,
                warned := warned s @ w1 @ w2 @ w3 \<rparr>))"

subsection \<open>The termination checks\<close>

text \<open>
  Lines 459 to 502.  The outcome says whether the loop goes on and which \<open>break\<close> ended
  it.  \<open>elapsed i\<close> is \<open>time.time() - startTime\<close> as read in pass \<open>i\<close>.
  \<open>self.y_n / float(self.convergenceFactor)\<close> divides a Python int by a Python float and
  raises on zero.
\<close>

datatype control = Continue | BreakDone | BreakMaxTime | BreakDgfZero

definition criterion :: "problem \<Rightarrow> nat \<Rightarrow> engine \<Rightarrow> bool" where
  "criterion p i s =
     (flt (fabs (d_i2 s ! i)) (fdiv (Fin (real (y_n p))) (convergenceFactor p))
      \<and> feq (gam_i s ! i) (Fin 1) \<and> fne (d_i2 s ! i) (Fin 0))"

definition terminationChecks ::
  "(nat \<Rightarrow> pyfloat) \<Rightarrow> problem \<Rightarrow> pyfloat \<Rightarrow> nat \<Rightarrow> engine \<Rightarrow> error + control \<times> engine" where
  "terminationChecks elapsed p maxTime i s =
     (if converged s then Inr (BreakDone, s\<lparr> printed := printed s @ [Done i] \<rparr>)
      else if fgt (elapsed i) maxTime then
        Inr (BreakMaxTime, s\<lparr> converged := False, printed := printed s @ [MaximumTimeExceeded i] \<rparr>)
      else if i \<noteq> 0 then
        (if convergenceFactor p = Fin 0 then Inl ZeroDivisionError
         else if criterion p i s then
           Inr (Continue, s\<lparr> converged := True, printed := printed s @ [CriteriaFulfilled i] \<rparr>)
         else if 1 < i \<and> feq (dgf_i s ! i) (Fin 0) then
           Inr (BreakDgfZero,
                s\<lparr> converged := False, printed := printed s @ [DegreesOfFreedomZero i] \<rparr>)
         else Inr (Continue, s\<lparr> printed := printed s @ [CriteriaNotFulfilled i] \<rparr>))
      else Inr (Continue, s))"

definition loop_body ::
  "numlib \<Rightarrow> (nat \<Rightarrow> pyfloat) \<Rightarrow> problem \<Rightarrow> pyfloat \<Rightarrow> nat \<Rightarrow> engine \<Rightarrow> error + control \<times> engine" where
  "loop_body nl elapsed p maxTime i s =
     (case iteration nl p i s of
        Inl e \<Rightarrow> Inl e
      | Inr s' \<Rightarrow> terminationChecks elapsed p maxTime i s')"

text \<open>
  \<open>for i in range(maxIter)\<close>: the passes in order, until one breaks.  The result carries
  the value of \<open>i\<close> after the loop: the index of the pass that broke, or the last index.
\<close>

fun for_loop ::
  "(nat \<Rightarrow> engine \<Rightarrow> error + control \<times> engine) \<Rightarrow> nat list \<Rightarrow> nat \<Rightarrow> engine
     \<Rightarrow> error + nat \<times> control \<times> engine" where
  "for_loop body [] i_prev s = Inr (i_prev, Continue, s)"
| "for_loop body (i # is) i_prev s =
     (case body i s of
        Inl e \<Rightarrow> Inl e
      | Inr (c, s') \<Rightarrow> if c = Continue then for_loop body is i s' else Inr (i, c, s'))"

subsection \<open>The run\<close>

definition initial_gam :: "problem \<Rightarrow> nat \<Rightarrow> error + pyfloat list" where
  \<comment> \<open>lines 341 to 344\<close>
  "initial_gam p n =
     (case gammaFactor p of
        None \<Rightarrow> Inr (replicate n (Fin 1))
      | Some g \<Rightarrow>
          if g = [] then Inr (replicate n (Fin 1))
          else if \<not> length g \<le> n then Inl AssertionError
          else Inr (g @ drop (length g) (replicate n (Fin 1))))"

text \<open>Lines 325 to 502: the set-up and the loop.\<close>

definition retrieval_loop ::
  "numlib \<Rightarrow> (nat \<Rightarrow> pyfloat) \<Rightarrow> problem \<Rightarrow> engine \<Rightarrow> int \<Rightarrow> vec option \<Rightarrow> pyfloat
     \<Rightarrow> error + nat \<times> control \<times> engine" where
  "retrieval_loop nl elapsed p s maxIter x_0 maxTime =
     (if \<not> 0 < maxIter then Inl AssertionError
      else case invertMatrix nl (S_a p) True of
        Inl e \<Rightarrow> Inl e
      | Inr (Sa_inv, w) \<Rightarrow>
          let n = nat maxIter in
          case initial_gam p n of
            Inl e \<Rightarrow> Inl e
          | Inr gam \<Rightarrow>
              let x0 = (case x_0 of None \<Rightarrow> x_a p | Some v \<Rightarrow> v);
                  y0 = forward p (x0 @ b_p p);
                  s0 = s\<lparr> converged := False,
                          S_a_inv := Val Sa_inv,
                          K_i := replicate n PyZero,
                          K_b_i := replicate n PyZero,
                          x_i := (replicate (n + 1) PyZero)[0 := Val x0],
                          y_i := (replicate (n + 1) PyZero)[0 := Val y0],
                          dgf_i := replicate n (Fin 0),
                          H_i := replicate n (Fin 0),
                          A_i := replicate n PyZero,
                          d_i2 := replicate n (Fin 0),
                          S_aposterior_i := replicate n PyZero,
                          gam_i := gam,
                          warned := warned s @ w \<rparr>
              in for_loop (loop_body nl elapsed p maxTime) [0..<n] 0 s0)"

text \<open>Lines 504 to 548: the histories are cut after the last pass and the result is set.\<close>

definition finalize :: "problem \<Rightarrow> nat \<Rightarrow> engine \<Rightarrow> error + engine" where
  "finalize p i s0 =
     (let s = s0\<lparr> K_i := take (i + 1) (K_i s0),
                  K_b_i := take (i + 1) (K_b_i s0),
                  x_i := take (i + 2) (x_i s0),
                  y_i := take (i + 2) (y_i s0),
                  dgf_i := take (i + 1) (dgf_i s0),
                  A_i := take (i + 1) (A_i s0),
                  H_i := take (i + 1) (H_i s0),
                  d_i2 := take (i + 1) (d_i2 s0),
                  S_aposterior_i := take (i + 1) (S_aposterior_i s0),
                  gam_i := take (i + 1) (gam_i s0) \<rparr>
      in if converged s then
           (case val (S_aposterior_i s ! i) of Inl e \<Rightarrow> Inl e | Inr S \<Rightarrow>
            case val (A_i s ! i) of Inl e \<Rightarrow> Inl e | Inr A \<Rightarrow>
            case val (K_b_i s ! i) of Inl e \<Rightarrow> Inl e | Inr Kb \<Rightarrow>
              Inr (s\<lparr> convI := Val (int i),
                      x_op := x_i s ! i,
                      y_op := y_i s ! i,
                      S_op := S_aposterior_i s ! i,
                      x_op_err := Val (map fsqrt (diag S)),
                      dgf := Val (dgf_i s ! i),
                      dgf_x := Val (diag A),
                      S_Ep := Val (mat_add (S_y p) (dot (dot Kb (S_b p)) (transpose_mat Kb))) \<rparr>))
         else
           Inr (s\<lparr> convI := Val (- 9999), x_op := PyNaN, y_op := PyNaN, S_op := PyNaN,
                   x_op_err := PyNaN, dgf := PyNaN, dgf_x := PyNaN, S_Ep := PyNaN \<rparr>))"

text \<open>
  \<open>doRetrieval(maxIter, x_0, maxTime)\<close>.  The source returns \<open>self.converged\<close> and
  leaves the result in the object; the model returns the object.
\<close>

definition doRetrieval ::
  "numlib \<Rightarrow> (nat \<Rightarrow> pyfloat) \<Rightarrow> problem \<Rightarrow> engine \<Rightarrow> int \<Rightarrow> vec option \<Rightarrow> pyfloat
     \<Rightarrow> error + engine" where
  "doRetrieval nl elapsed p s maxIter x_0 maxTime =
     (case retrieval_loop nl elapsed p s maxIter x_0 maxTime of
        Inl e \<Rightarrow> Inl e
      | Inr (i, c, s1) \<Rightarrow> finalize p i s1)"

section \<open>The chi-square tests\<close>

text \<open>
  \<open>_estimateChi2(S, z, atol)\<close> and \<open>_testChi2(S, z, significance, atol)\<close>.
  \<open>scipy.linalg.eig\<close> checks its argument and raises on a NaN or infinite entry.  The
  model keeps the eigenvalues real, which is the case of a symmetric \<open>S\<close>; on real
  numbers \<open>np.real_if_close\<close> changes nothing.
\<close>

definition estimateChi2 ::
  "numlib \<Rightarrow> mat \<Rightarrow> vec \<Rightarrow> pyfloat \<Rightarrow> error + (vec \<times> nat) \<times> notice list" where
  "estimateChi2 nl S z atol =
     (if mat_any (\<lambda>v. isnan v \<or> isinf v) S then Inl ValueError
      else
        let (eigVals, eigVecsL) = scipy_eig nl S;
            z_prime = mat_vec (transpose_mat eigVecsL) z;
            notNull = map (\<lambda>l. fgt (fabs l) atol) eigVals;
            dofs = length (filter (\<lambda>b. b) notNull);
            chi2s = map (\<lambda>k. fdiv (fmul (z_prime ! k) (z_prime ! k)) (eigVals ! k))
                        (filter (\<lambda>k. notNull ! k) [0..<length notNull])
        in Inr ((chi2s, dofs),
                if dofs \<noteq> length notNull then [SingularRank dofs (length notNull)] else []))"

definition testChi2 ::
  "numlib \<Rightarrow> mat \<Rightarrow> vec \<Rightarrow> pyfloat \<Rightarrow> pyfloat \<Rightarrow> error + (pyfloat \<times> pyfloat) \<times> notice list" where
  "testChi2 nl S z significance atol =
     (case estimateChi2 nl S z atol of
        Inl e \<Rightarrow> Inl e
      | Inr ((chi2s_obs, dof), ns) \<Rightarrow>
          Inr ((fsum chi2s_obs, chi2_isf nl significance dof), ns))"

text \<open>
  Reading the object: \<open>a.values\<close> of an attribute that holds no array, indexing a history
  list with \<open>convI\<close> (a negative index counts from the end), and the property \<open>y_a\<close>,
  which evaluates the forward model at the prior once and keeps the result.
\<close>

definition attr_values :: "'a attr \<Rightarrow> error + 'a" where
  "attr_values a = (case a of Val v \<Rightarrow> Inr v | PyNone \<Rightarrow> Inl AttributeError
                    | PyZero \<Rightarrow> Inl AttributeError | PyNaN \<Rightarrow> Inl AttributeError)"

definition py_index :: "'a list \<Rightarrow> int \<Rightarrow> error + 'a" where
  "py_index xs i =
     (if 0 \<le> i \<and> i < int (length xs) then Inr (xs ! nat i)
      else if i < 0 \<and> - int (length xs) \<le> i then Inr (xs ! nat (int (length xs) + i))
      else Inl IndexError)"

definition list_at :: "'a list \<Rightarrow> int attr \<Rightarrow> error + 'a" where
  "list_at xs c = (case c of Val i \<Rightarrow> py_index xs i | PyZero \<Rightarrow> py_index xs 0
                   | PyNone \<Rightarrow> Inl TypeError | PyNaN \<Rightarrow> Inl TypeError)"

definition y_a :: "problem \<Rightarrow> engine \<Rightarrow> vec attr \<times> engine" where
  "y_a p s = (case y_a_cache s of
       PyNone \<Rightarrow> (let v = Val (forward p (x_a p @ b_p p)) in (v, s\<lparr> y_a_cache := v \<rparr>))
     | PyZero \<Rightarrow> (PyZero, s) | PyNaN \<Rightarrow> (PyNaN, s) | Val v \<Rightarrow> (Val v, s))"

text \<open>
  The four tests, lines 712 to 904.  Each returns the pair \<open>(chi2, chi2 critical)\<close>; the
  model returns the object beside it, with what the call printed and warned.
\<close>

definition chiSquareTestYOptimalObservation ::
  "numlib \<Rightarrow> problem \<Rightarrow> engine \<Rightarrow> pyfloat \<Rightarrow> pyfloat \<Rightarrow> error + (pyfloat \<times> pyfloat) \<times> engine" where
  "chiSquareTestYOptimalObservation nl p s significance atol =
     (if \<not> converged s then Inl AssertionError
      else
        case attr_values (S_Ep s) of Inl e \<Rightarrow> Inl e | Inr Sep \<Rightarrow>
        case list_at (K_i s) (convI s) of Inl e \<Rightarrow> Inl e | Inr Kc \<Rightarrow>
        case attr_values Kc of Inl e \<Rightarrow> Inl e | Inr K \<Rightarrow>
        case invertMatrix nl (mat_add (dot (dot K (S_a p)) (transpose_mat K)) Sep) True of
          Inl e \<Rightarrow> Inl e
        | Inr (KSaKSep_inv, w) \<Rightarrow>
            let S_deyd = dot (dot Sep KSaKSep_inv) Sep
            in case list_at (y_i s) (convI s) of Inl e \<Rightarrow> Inl e | Inr yc \<Rightarrow>
               case val yc of Inl e \<Rightarrow> Inl e | Inr y_conv \<Rightarrow>
               let delta_y = vec_sub y_conv (y_obs p)
               in case testChi2 nl S_deyd delta_y significance atol of
                    Inl e \<Rightarrow> Inl e
                  | Inr (res, ns) \<Rightarrow>
                      Inr (res, s\<lparr> printed := printed s @ ns, warned := warned s @ w \<rparr>))"

definition chiSquareTestYObservationPrior ::
  "numlib \<Rightarrow> problem \<Rightarrow> engine \<Rightarrow> pyfloat \<Rightarrow> pyfloat \<Rightarrow> error + (pyfloat \<times> pyfloat) \<times> engine" where
  "chiSquareTestYObservationPrior nl p s significance atol =
     (if \<not> converged s then Inl AssertionError
      else
        let (ya, s1) = y_a p s
        in case val ya of Inl e \<Rightarrow> Inl e | Inr y_prior \<Rightarrow>
           let delta_y = vec_sub (y_obs p) y_prior
           in case attr_values (S_Ep s1) of Inl e \<Rightarrow> Inl e | Inr Sep \<Rightarrow>
              case list_at (K_i s1) (convI s1) of Inl e \<Rightarrow> Inl e | Inr Kc \<Rightarrow>
              case attr_values Kc of Inl e \<Rightarrow> Inl e | Inr K \<Rightarrow>
              let KSaKSep = mat_add (dot (dot K (S_a p)) (transpose_mat K)) Sep
              in case testChi2 nl KSaKSep delta_y significance atol of
                   Inl e \<Rightarrow> Inl e
                 | Inr (res, ns) \<Rightarrow> Inr (res, s1\<lparr> printed := printed s1 @ ns \<rparr>))"

definition chiSquareTestYOptimalPrior ::
  "numlib \<Rightarrow> problem \<Rightarrow> engine \<Rightarrow> pyfloat \<Rightarrow> pyfloat \<Rightarrow> error + (pyfloat \<times> pyfloat) \<times> engine" where
  "chiSquareTestYOptimalPrior nl p s significance atol =
     (if \<not> converged s then Inl AssertionError
      else
        case list_at (y_i s) (convI s) of Inl e \<Rightarrow> Inl e | Inr yc \<Rightarrow>
        case val yc of Inl e \<Rightarrow> Inl e | Inr y_conv \<Rightarrow>
        let (ya, s1) = y_a p s
        in case val ya of Inl e \<Rightarrow> Inl e | Inr y_prior \<Rightarrow>
           let delta_y = vec_sub y_conv y_prior
           in case attr_values (S_Ep s1) of Inl e \<Rightarrow> Inl e | Inr S_ep \<Rightarrow>
              case list_at (K_i s1) (convI s1) of Inl e \<Rightarrow> Inl e | Inr Kc \<Rightarrow>
              case attr_values Kc of Inl e \<Rightarrow> Inl e | Inr K \<Rightarrow>
              let KSaK = dot (dot K (S_a p)) (transpose_mat K)
              in case invertMatrix nl (mat_add KSaK S_ep) True of
                   Inl e \<Rightarrow> Inl e
                 | Inr (KSaKSep_inv, w) \<Rightarrow>
                     let Syd = dot (dot KSaK KSaKSep_inv) KSaK
                     in case testChi2 nl Syd delta_y significance atol of
                          Inl e \<Rightarrow> Inl e
                        | Inr (res, ns) \<Rightarrow>
                            Inr (res, s1\<lparr> printed := printed s1 @ ns,
                                           warned := warned s1 @ w \<rparr>))"

definition chiSquareTestXOptimalPrior ::
  "numlib \<Rightarrow> problem \<Rightarrow> engine \<Rightarrow> pyfloat \<Rightarrow> pyfloat \<Rightarrow> error + (pyfloat \<times> pyfloat) \<times> engine" where
  "chiSquareTestXOptimalPrior nl p s significance atol =
     (if \<not> converged s then Inl AssertionError
      else
        case val (x_op s) of Inl e \<Rightarrow> Inl e | Inr x_opt \<Rightarrow>
        let delta_x = vec_sub x_opt (x_a p)
        in case list_at (K_i s) (convI s) of Inl e \<Rightarrow> Inl e | Inr Kc \<Rightarrow>
           case attr_values Kc of Inl e \<Rightarrow> Inl e | Inr K \<Rightarrow>
           case attr_values (S_Ep s) of Inl e \<Rightarrow> Inl e | Inr S_ep \<Rightarrow>
           case invertMatrix nl (mat_add (dot (dot K (S_a p)) (transpose_mat K)) S_ep) True of
             Inl e \<Rightarrow> Inl e
           | Inr (KSaKSep_inv, w) \<Rightarrow>
               let Sxd = dot (dot (dot (dot (S_a p) (transpose_mat K)) KSaKSep_inv) K) (S_a p)
               in case testChi2 nl Sxd delta_x significance atol of
                    Inl e \<Rightarrow> Inl e
                  | Inr (res, ns) \<Rightarrow>
                      Inr (res, s\<lparr> printed := printed s @ ns, warned := warned s @ w \<rparr>))"

text \<open>
  \<open>chiSquareTest(significance)\<close>, lines 641 to 710.  Without convergence it prints, builds
  a table of NaN that it does not keep, and goes on to read \<open>self.chi2Results\<close>, which
  only a converged call has ever set.  The tests are called with their default \<open>atol\<close>.
\<close>

definition chiSquareTest ::
  "numlib \<Rightarrow> problem \<Rightarrow> engine \<Rightarrow> pyfloat
     \<Rightarrow> error + (bool list \<times> pyfloat list \<times> pyfloat list) \<times> engine" where
  "chiSquareTest nl p s significance =
     (let atol = Fin (1 / 100000);
          tested =
            (if \<not> converged s then Inr (s\<lparr> printed := printed s @ [DidNotConverge] \<rparr>)
             else
               case chiSquareTestYOptimalObservation nl p s significance atol of
                 Inl e \<Rightarrow> Inl e | Inr (r1, s1) \<Rightarrow>
               case chiSquareTestYObservationPrior nl p s1 significance atol of
                 Inl e \<Rightarrow> Inl e | Inr (r2, s2) \<Rightarrow>
               case chiSquareTestYOptimalPrior nl p s2 significance atol of
                 Inl e \<Rightarrow> Inl e | Inr (r3, s3) \<Rightarrow>
               case chiSquareTestXOptimalPrior nl p s3 significance atol of
                 Inl e \<Rightarrow> Inl e | Inr (r4, s4) \<Rightarrow>
                   Inr (s4\<lparr> chi2Results := Some [r1, r2, r3, r4] \<rparr>))
      in case tested of
           Inl e \<Rightarrow> Inl e
         | Inr s' \<Rightarrow>
             (case chi2Results s' of
                None \<Rightarrow> Inl AttributeError
              | Some rs \<Rightarrow>
                  Inr ((map (\<lambda>(v, c). flt v c) rs, map fst rs, map snd rs), s')))"

section \<open>A one-dimensional problem\<close>

text \<open>
  A problem for evaluating the program: one state variable, one measurement, no parameter,
  prior 0 with variance 1, observation 2 with variance 1, additive disturbance 1/2.  The
  forward model is the identity below 1 and \<open>x + 1/8\<close> from 1 on.  Every number is a
  small dyadic fraction, so the exact arithmetic of the model is also what float64 computes.
\<close>

definition kinked_forward :: "vec \<Rightarrow> vec" where
  "kinked_forward xb = [case xb ! 0 of Fin a \<Rightarrow> Fin (if a < 1 then a else a + 1 / 8)
                                   | PInf \<Rightarrow> PInf | NInf \<Rightarrow> NInf | NaN \<Rightarrow> NaN]"

definition problem_1d :: problem where
  "problem_1d = \<lparr> x_vars = [''x''], x_a = [Fin 0], S_a = Mat 1 1 [[Fin 1]],
     y_vars = [''y''], y_obs = [Fin 2], S_y = Mat 1 1 [[Fin 1]],
     forward = kinked_forward, x_truth = None,
     b_vars = [], b_p = [], S_b = Mat 0 0 [],
     x_lowerLimit = Map.empty, x_upperLimit = Map.empty,
     useFactorInJac = False, gammaFactor = None,
     disturbance = DisturbanceFloat (Fin (1 / 2)), convergenceFactor = Fin 10 \<rparr>"

text \<open>
  The object on this problem after the set-up of \<open>doRetrieval(maxIter=2)\<close>, after the
  first pass of the loop and after the second one.
\<close>

definition start_1d :: engine where
  "start_1d = new_engine\<lparr> S_a_inv := Val (Mat 1 1 [[Fin 1]]),
     K_i := [PyZero, PyZero], K_b_i := [PyZero, PyZero],
     x_i := [Val [Fin 0], PyZero, PyZero], y_i := [Val [Fin 0], PyZero, PyZero],
     dgf_i := [Fin 0, Fin 0], H_i := [Fin 0, Fin 0], A_i := [PyZero, PyZero],
     d_i2 := [Fin 0, Fin 0], S_aposterior_i := [PyZero, PyZero], gam_i := [Fin 1, Fin 1] \<rparr>"

definition pass0_1d :: engine where
  "pass0_1d = start_1d\<lparr> K_i := [Val (Mat 1 1 [[Fin 1]]), PyZero],
     K_b_i := [Val (Mat 1 0 [[]]), PyZero],
     x_i := [Val [Fin 0], Val [Fin 1], PyZero], y_i := [Val [Fin 0], Val [Fin (9 / 8)], PyZero],
     dgf_i := [Fin (1 / 2), Fin 0], H_i := [Fin (- (ln (1 / 2) / 2)), Fin 0],
     A_i := [Val (Mat 1 1 [[Fin (1 / 2)]]), PyZero], d_i2 := [Fin 2, Fin 0],
     S_aposterior_i := [Val (Mat 1 1 [[Fin (1 / 2)]]), PyZero] \<rparr>"

definition pass1_1d :: engine where
  "pass1_1d = pass0_1d\<lparr> converged := True,
     K_i := [Val (Mat 1 1 [[Fin 1]]), Val (Mat 1 1 [[Fin 1]])],
     K_b_i := [Val (Mat 1 0 [[]]), Val (Mat 1 0 [[]])],
     x_i := [Val [Fin 0], Val [Fin 1], Val [Fin (15 / 16)]],
     y_i := [Val [Fin 0], Val [Fin (9 / 8)], Val [Fin (15 / 16)]],
     dgf_i := [Fin (1 / 2), Fin (1 / 2)],
     H_i := [Fin (- (ln (1 / 2) / 2)), Fin (- (ln (1 / 2) / 2))],
     A_i := [Val (Mat 1 1 [[Fin (1 / 2)]]), Val (Mat 1 1 [[Fin (1 / 2)]])],
     d_i2 := [Fin 2, Fin (1 / 128)],
     S_aposterior_i := [Val (Mat 1 1 [[Fin (1 / 2)]]), Val (Mat 1 1 [[Fin (1 / 2)]])],
     printed := [CriteriaFulfilled 1] \<rparr>"

text \<open>
  Two variants.  In the first the observation is -1 and its variance is -2: the matrix
  \<open>[[-2]]\<close> has full rank and no NaN, which is all the constructor asserts of \<open>S_y\<close>.
  In the second the forward model returns the observation 2 at the state 15/16, which the
  second pass of the run reaches.
\<close>

definition problem_neg :: problem where
  "problem_neg = problem_1d\<lparr> y_obs := [Fin (- 1)], S_y := Mat 1 1 [[Fin (- 2)]] \<rparr>"

definition fitting_forward :: "vec \<Rightarrow> vec" where
  "fitting_forward xb = (if xb = [Fin (15 / 16)] then [Fin 2] else kinked_forward xb)"

definition problem_fit :: problem where
  "problem_fit = problem_1d\<lparr> forward := fitting_forward \<rparr>"

text \<open>The objects the runs with \<open>maxIter = 3\<close> return on the three problems.\<close>

definition result_1d_3 :: engine where
  "result_1d_3 = \<lparr>converged = True, S_a_inv = Val (Mat 1 1 [[Fin 1]]),
        K_i = [Val (Mat 1 1 [[Fin 1]]), Val (Mat 1 1 [[Fin 1]]), Val (Mat 1 1 [[Fin (5 / 4)]])],
        K_b_i = [Val (Mat 1 0 [[]]), Val (Mat 1 0 [[]]), Val (Mat 1 0 [[]])],
        x_i = [Val [Fin 0], Val [Fin 1], Val [Fin (15 / 16)], Val [Fin (715 / 656)]],
        y_i = [Val [Fin 0], Val [Fin (9 / 8)], Val [Fin (15 / 16)], Val [Fin (797 / 656)]],
        dgf_i = [Fin (1 / 2), Fin (1 / 2), Fin (25 / 41)],
        H_i = [Fin (- (ln (1 / 2) / 2)), Fin (- (ln (1 / 2) / 2)), Fin (- (ln (16 / 41) / 2))],
        A_i = [Val (Mat 1 1 [[Fin (1 / 2)]]), Val (Mat 1 1 [[Fin (1 / 2)]]),
               Val (Mat 1 1 [[Fin (25 / 41)]])],
        d_i2 = [Fin 2, Fin (1 / 128), Fin (625 / 10496)],
        S_aposterior_i = [Val (Mat 1 1 [[Fin (1 / 2)]]), Val (Mat 1 1 [[Fin (1 / 2)]]),
                          Val (Mat 1 1 [[Fin (16 / 41)]])],
        gam_i = [Fin 1, Fin 1, Fin 1], convI = Val 2, x_op = Val [Fin (15 / 16)],
        y_op = Val [Fin (15 / 16)], S_op = Val (Mat 1 1 [[Fin (16 / 41)]]),
        x_op_err = Val [Fin (sqrt (16 / 41))], dgf = Val (Fin (25 / 41)),
        dgf_x = Val [Fin (25 / 41)], S_Ep = Val (Mat 1 1 [[Fin 1]]),
        y_a_cache = PyNone, chi2Results = None,
        printed = [CriteriaFulfilled 1, Done 2], warned = []\<rparr>"

definition result_neg_3 :: engine where
  "result_neg_3 = result_1d_3\<lparr>
        K_i := [Val (Mat 1 1 [[Fin 1]]), Val (Mat 1 1 [[Fin 1]]), Val (Mat 1 1 [[Fin 1]])],
        x_i := [Val [Fin 0], Val [Fin 1], Val [Fin (9 / 8)], Val [Fin (9 / 8)]],
        y_i := [Val [Fin 0], Val [Fin (9 / 8)], Val [Fin (5 / 4)], Val [Fin (5 / 4)]],
        dgf_i := [Fin (- 1), Fin (- 1), Fin (- 1)],
        H_i := [Fin (- (ln 2 / 2)), Fin (- (ln 2 / 2)), Fin (- (ln 2 / 2))],
        A_i := [Val (Mat 1 1 [[Fin (- 1)]]), Val (Mat 1 1 [[Fin (- 1)]]),
                Val (Mat 1 1 [[Fin (- 1)]])],
        d_i2 := [Fin (1 / 2), Fin (1 / 128), Fin 0],
        S_aposterior_i := [Val (Mat 1 1 [[Fin 2]]), Val (Mat 1 1 [[Fin 2]]),
                           Val (Mat 1 1 [[Fin 2]])],
        x_op := Val [Fin (9 / 8)], y_op := Val [Fin (5 / 4)], S_op := Val (Mat 1 1 [[Fin 2]]),
        x_op_err := Val [Fin (sqrt 2)], dgf := Val (Fin (- 1)), dgf_x := Val [Fin (- 1)],
        S_Ep := Val (Mat 1 1 [[Fin (- 2)]])\<rparr>"

definition result_fit_3 :: engine where
  "result_fit_3 = result_1d_3\<lparr>
        K_i := [Val (Mat 1 1 [[Fin 1]]), Val (Mat 1 1 [[Fin 1]]),
                Val (Mat 1 1 [[Fin (- (7 / 8))]])],
        x_i := [Val [Fin 0], Val [Fin 1], Val [Fin (15 / 16)], Val [Fin (735 / 1808)]],
        y_i := [Val [Fin 0], Val [Fin (9 / 8)], Val [Fin 2], Val [Fin (735 / 1808)]],
        dgf_i := [Fin (1 / 2), Fin (1 / 2), Fin (49 / 113)],
        H_i := [Fin (- (ln (1 / 2) / 2)), Fin (- (ln (1 / 2) / 2)),
                Fin (- (ln (64 / 113) / 2))],
        A_i := [Val (Mat 1 1 [[Fin (1 / 2)]]), Val (Mat 1 1 [[Fin (1 / 2)]]),
                Val (Mat 1 1 [[Fin (49 / 113)]])],
        d_i2 := [Fin 2, Fin (1 / 128), Fin (225 / 452)],
        S_aposterior_i := [Val (Mat 1 1 [[Fin (1 / 2)]]), Val (Mat 1 1 [[Fin (1 / 2)]]),
                           Val (Mat 1 1 [[Fin (64 / 113)]])],
        y_op := Val [Fin 2], S_op := Val (Mat 1 1 [[Fin (64 / 113)]]),
        x_op_err := Val [Fin (sqrt (64 / 113))], dgf := Val (Fin (49 / 113)),
        dgf_x := Val [Fin (49 / 113)]\<rparr>"

section \<open>Invariants of the loop\<close>

text \<open>
  \<open>allocated n\<close>: the histories have the lengths that the set-up gives them for
  \<open>maxIter = n\<close>.  \<open>entering p n k\<close> holds of the engine when pass \<open>k\<close> starts;
  \<open>confirmed p n i\<close> holds when pass \<open>i\<close> has ended the loop with the \<open>Done\<close> break.
\<close>

definition allocated :: "nat \<Rightarrow> engine \<Rightarrow> bool" where
  "allocated n s =
     (length (K_i s) = n \<and> length (K_b_i s) = n \<and> length (x_i s) = n + 1
      \<and> length (y_i s) = n + 1 \<and> length (dgf_i s) = n \<and> length (H_i s) = n
      \<and> length (A_i s) = n \<and> length (d_i2 s) = n \<and> length (S_aposterior_i s) = n
      \<and> length (gam_i s) = n)"

definition entering :: "problem \<Rightarrow> nat \<Rightarrow> nat \<Rightarrow> engine \<Rightarrow> bool" where
  "entering p n k s =
     (allocated n s
      \<and> (converged s \<longrightarrow> 2 \<le> k \<and> criterion p (k - 1) s)
      \<and> (0 < k \<longrightarrow> (\<exists>x_next. x_i s ! k = Val (fst (boundRepair p (k - 1) x_next)))))"

definition confirmed :: "problem \<Rightarrow> nat \<Rightarrow> nat \<Rightarrow> engine \<Rightarrow> bool" where
  "confirmed p n i s =
     (2 \<le> i \<and> i < n \<and> converged s \<and> criterion p (i - 1) s \<and> allocated n s
      \<and> (\<exists>xo yo Kx Kb x_next S A.
            x_i s ! i = Val xo \<and> xo = fst (boundRepair p (i - 1) x_next) \<and> y_i s ! i = Val yo
            \<and> getJacobian p (xo @ b_p p) yo = Inr (Kx, Kb)
            \<and> K_i s ! i = Val Kx \<and> K_b_i s ! i = Val Kb
            \<and> S_aposterior_i s ! i = Val S \<and> A_i s ! i = Val A))"

section \<open>Matrix inversion\<close>

lemma nan_like_shape: "nrows (nan_like A) = nrows A \<and> ncols (nan_like A) = ncols A"
  by (simp add: nan_like_def mat_map_def)

lemma nan_like_all_nan: "mat_all isnan (nan_like A)"
  by (simp add: nan_like_def mat_map_def mat_all_def isnan_def list_all_iff)

text \<open>
  C3.  A matrix with a NaN entry is answered with an all-NaN matrix of the same shape and
  a warning, and no error.  Otherwise, when the condition number exceeds the reciprocal of
  the machine epsilon, the strict call raises and the lenient call answers with an all-NaN
  matrix and a warning.  Otherwise the answer is the library's inverse, with no warning;
  so whenever the library's inverse is a right inverse of \<open>A\<close>, so is the answer.
\<close>

theorem invertMatrix_cases:
  "(mat_any isnan A \<longrightarrow>
      (\<exists>N. invertMatrix nl A raise_error = Inr (N, [FoundNanInMatrix]) \<and> mat_all isnan N
           \<and> nrows N = nrows A \<and> ncols N = ncols A))
   \<and> (\<not> mat_any isnan A \<and> fgt (np_cond nl A) (fdiv (Fin 1) (np_eps nl)) \<longrightarrow>
      invertMatrix nl A True = Inl ValueError
      \<and> (\<exists>N. invertMatrix nl A False = Inr (N, [FoundSingularMatrix]) \<and> mat_all isnan N
           \<and> nrows N = nrows A \<and> ncols N = ncols A))
   \<and> (\<not> mat_any isnan A \<and> \<not> fgt (np_cond nl A) (fdiv (Fin 1) (np_eps nl)) \<longrightarrow>
      invertMatrix nl A raise_error = Inr (np_inv nl A, [])
      \<and> (dot A (np_inv nl A) = identity (nrows A) \<longrightarrow>
           (\<exists>B. invertMatrix nl A raise_error = Inr (B, []) \<and> dot A B = identity (nrows A))))"
  by (simp add: invertMatrix_def nan_like_shape nan_like_all_nan)

theorem invertMatrix_cases_witness:
  "mat_any isnan (Mat 1 1 [[NaN]])
   \<and> (\<exists>N. invertMatrix (numlib_1x1 (\<lambda>p n. NaN)) (Mat 1 1 [[NaN]]) True = Inr (N, [FoundNanInMatrix])
          \<and> mat_all isnan N \<and> nrows N = 1 \<and> ncols N = 1)
   \<and> \<not> mat_any isnan (Mat 1 1 [[Fin 0]])
   \<and> fgt (np_cond (numlib_1x1 (\<lambda>p n. NaN)) (Mat 1 1 [[Fin 0]]))
          (fdiv (Fin 1) (np_eps (numlib_1x1 (\<lambda>p n. NaN))))
   \<and> invertMatrix (numlib_1x1 (\<lambda>p n. NaN)) (Mat 1 1 [[Fin 0]]) True = Inl ValueError
   \<and> (\<exists>N. invertMatrix (numlib_1x1 (\<lambda>p n. NaN)) (Mat 1 1 [[Fin 0]]) False = Inr (N, [FoundSingularMatrix])
          \<and> mat_all isnan N \<and> nrows N = 1 \<and> ncols N = 1)
   \<and> \<not> mat_any isnan (Mat 1 1 [[Fin 2]])
   \<and> \<not> fgt (np_cond (numlib_1x1 (\<lambda>p n. NaN)) (Mat 1 1 [[Fin 2]]))
          (fdiv (Fin 1) (np_eps (numlib_1x1 (\<lambda>p n. NaN))))
   \<and> dot (Mat 1 1 [[Fin 2]]) (np_inv (numlib_1x1 (\<lambda>p n. NaN)) (Mat 1 1 [[Fin 2]])) = identity 1
   \<and> invertMatrix (numlib_1x1 (\<lambda>p n. NaN)) (Mat 1 1 [[Fin 2]]) True = Inr (Mat 1 1 [[Fin (1 / 2)]], [])"
  using invertMatrix_cases [of "Mat 1 1 [[NaN]]" "numlib_1x1 (\<lambda>p n. NaN)" True]
        invertMatrix_cases [of "Mat 1 1 [[Fin 0]]" "numlib_1x1 (\<lambda>p n. NaN)" True]
        invertMatrix_cases [of "Mat 1 1 [[Fin 2]]" "numlib_1x1 (\<lambda>p n. NaN)" True]
  by (simp add: numlib_1x1_def mat_any_def isnan_def cond_1x1_def entry_def fgt_def inv_1x1_def
      mat_map_def dot_def identity_def mk_mat_def fsum_def)

section \<open>The Jacobian\<close>

lemma entry_mk_mat: "i < n \<Longrightarrow> j < m \<Longrightarrow> entry (mk_mat n m f) i j = f i j"
  by (simp add: entry_def mk_mat_def)

lemma mat_map_mk_mat: "mat_map g (mk_mat n m f) = mk_mat n m (\<lambda>i j. g (f i j))"
  by (simp add: mat_map_def mk_mat_def)

lemma mat_any_mk_mat: "mat_any P (mk_mat n m f) = (\<exists>i<n. \<exists>j<m. P (f i j))"
  by (auto simp: mat_any_def mk_mat_def list_ex_iff Bex_def)

lemma nrows_mk_mat: "nrows (mk_mat n m f) = n"
  by (simp add: mk_mat_def)

lemma ncols_mk_mat: "ncols (mk_mat n m f) = m"
  by (simp add: mk_mat_def)

lemma zero_nonfinite_finite: "\<not> isnan (zero_nonfinite v) \<and> \<not> isinf (zero_nonfinite v)"
  by (simp add: zero_nonfinite_def isnan_def isinf_def)

lemma diag_length: "wf_mat n n M \<Longrightarrow> length (diag M) = n"
  by (simp add: diag_def wf_mat_def)

lemma xb_err_nth:
  assumes "well_shaped p" "k < x_n p + b_n p"
  shows "(x_a_err p @ b_p_err p) ! k = fsqrt ((diag (S_a p) @ diag (S_b p)) ! k)"
proof -
  have "x_a_err p @ b_p_err p = map fsqrt (diag (S_a p) @ diag (S_b p))"
    by (simp add: x_a_err_def b_p_err_def)
  moreover have "length (diag (S_a p)) = x_n p" "length (diag (S_b p)) = b_n p"
    using assms(1) by (simp_all add: well_shaped_def diag_length)
  ultimately show ?thesis using assms(2) by (simp del: map_append)
qed

lemma entry_cols_slice:
  "i < nrows M \<Longrightarrow> j < b - a \<Longrightarrow> entry (cols_slice M a b) i j = entry M i (a + j)"
  by (simp add: cols_slice_def entry_mk_mat)

lemma getJacobian_Inr:
  assumes ok: "getJacobian p xb y = Inr (Kx, Kb)"
  shows "\<exists>m. disturbances_of p (x_vars p @ b_vars p) = Inr m
     \<and> (\<forall>key \<in> set (x_vars p @ b_vars p). m key \<noteq> None)
     \<and> (let n = x_n p + b_n p;
            err = x_a_err p @ b_p_err p;
            J = mk_mat (y_n p) n (\<lambda>r k. zero_nonfinite
                 (fdiv (fsub (forward p (xb[k := disturbed_value p (xb ! k)
                           (the (m ((x_vars p @ b_vars p) ! k))) (err ! k)]) ! r) (y ! r))
                   (dist_of p (xb ! k) (the (m ((x_vars p @ b_vars p) ! k))) (err ! k))))
        in Kx = cols_slice J 0 (x_n p) \<and> Kb = cols_slice J (x_n p) n)"
proof -
  let ?names = "x_vars p @ b_vars p"
  have len: "length ?names = x_n p + b_n p" by (simp add: x_n_def b_n_def)
  from ok obtain m where m: "disturbances_of p ?names = Inr m"
    by (auto simp: getJacobian_def Let_def split: if_splits sum.splits)
  from ok m have keys: "\<forall>key \<in> set ?names. m key \<noteq> None"
    by (auto simp: getJacobian_def Let_def list_ex_iff split: if_splits sum.splits)
  have eqJ: "mat_map zero_nonfinite (mk_mat (y_n p) (length ?names)
       (\<lambda>r k. fdiv (fsub (map (forward p)
           (map (\<lambda>k. xb[k := disturbed_value p (xb ! k) (map (\<lambda>key. the (m key)) ?names ! k)
               ((x_a_err p @ b_p_err p) ! k)]) [0..<length ?names]) ! k ! r) (y ! r))
          (map (\<lambda>k. dist_of p (xb ! k) (map (\<lambda>key. the (m key)) ?names ! k)
               ((x_a_err p @ b_p_err p) ! k)) [0..<length ?names] ! k)))
     = mk_mat (y_n p) (x_n p + b_n p) (\<lambda>r k. zero_nonfinite
                 (fdiv (fsub (forward p (xb[k := disturbed_value p (xb ! k)
                           (the (m (?names ! k))) ((x_a_err p @ b_p_err p) ! k)]) ! r) (y ! r))
                   (dist_of p (xb ! k) (the (m (?names ! k))) ((x_a_err p @ b_p_err p) ! k))))"
  proof -
    have nm: "\<And>k. k < x_n p + b_n p \<Longrightarrow>
        map (\<lambda>key. the (m key)) ?names ! k = the (m (?names ! k))"
      using len by (simp del: map_append)
    show ?thesis
      unfolding mat_map_mk_mat len by (simp add: mk_mat_def nm del: map_append)
  qed
  show ?thesis
    apply (rule exI[of _ m])
    using ok m keys eqJ
    by (simp add: getJacobian_def Let_def list_ex_iff x_n_def b_n_def split: if_splits del: map_append)
qed

lemma getJacobian_ok_entries:
  assumes ws: "well_shaped p" and ok: "getJacobian p xb y = Inr (Kx, Kb)"
  shows "\<exists>disturbances. disturbances_of p (x_vars p @ b_vars p) = Inr disturbances \<and>
     (\<forall>k < x_n p + b_n p. \<forall>r < y_n p. \<exists>fac.
         disturbances ((x_vars p @ b_vars p) ! k) = Some fac \<and>
         (let var = (diag (S_a p) @ diag (S_b p)) ! k;
              perturbed = (if useFactorInJac p then fmul (xb ! k) fac
                           else fadd (xb ! k) (fmul fac (fsqrt var)));
              magnitude = (if useFactorInJac p then fmul (xb ! k) (fsub fac (Fin 1))
                           else fmul fac (fsqrt var));
              q = fdiv (fsub (forward p (xb[k := perturbed]) ! r) (y ! r)) magnitude
          in (if k < x_n p then entry Kx r k else entry Kb r (k - x_n p))
               = (if isnan q \<or> isinf q then Fin 0 else q)))
     \<and> \<not> mat_any (\<lambda>v. isnan v \<or> isinf v) Kx \<and> \<not> mat_any (\<lambda>v. isnan v \<or> isinf v) Kb"
proof -
  let ?names = "x_vars p @ b_vars p"
  have len: "length ?names = x_n p + b_n p" by (simp add: x_n_def b_n_def)
  from getJacobian_Inr[OF ok] obtain m where
    m: "disturbances_of p ?names = Inr m" and
    keys: "\<forall>key \<in> set ?names. m key \<noteq> None" and
    Kx: "Kx = cols_slice (mk_mat (y_n p) (x_n p + b_n p) (\<lambda>r k. zero_nonfinite
                 (fdiv (fsub (forward p (xb[k := disturbed_value p (xb ! k)
                           (the (m (?names ! k))) ((x_a_err p @ b_p_err p) ! k)]) ! r) (y ! r))
                   (dist_of p (xb ! k) (the (m (?names ! k))) ((x_a_err p @ b_p_err p) ! k))))) 0 (x_n p)" and
    Kb: "Kb = cols_slice (mk_mat (y_n p) (x_n p + b_n p) (\<lambda>r k. zero_nonfinite
                 (fdiv (fsub (forward p (xb[k := disturbed_value p (xb ! k)
                           (the (m (?names ! k))) ((x_a_err p @ b_p_err p) ! k)]) ! r) (y ! r))
                   (dist_of p (xb ! k) (the (m (?names ! k))) ((x_a_err p @ b_p_err p) ! k))))) (x_n p) (x_n p + b_n p)"
    by (auto simp: Let_def)
  have fin: "\<not> mat_any (\<lambda>v. isnan v \<or> isinf v) Kx" "\<not> mat_any (\<lambda>v. isnan v \<or> isinf v) Kb"
    unfolding Kx Kb cols_slice_def
    by (simp_all add: mat_any_mk_mat entry_mk_mat nrows_mk_mat zero_nonfinite_finite)
  have ent: "\<exists>fac. m (?names ! k) = Some fac \<and>
         (let var = (diag (S_a p) @ diag (S_b p)) ! k;
              perturbed = (if useFactorInJac p then fmul (xb ! k) fac
                           else fadd (xb ! k) (fmul fac (fsqrt var)));
              magnitude = (if useFactorInJac p then fmul (xb ! k) (fsub fac (Fin 1))
                           else fmul fac (fsqrt var));
              q = fdiv (fsub (forward p (xb[k := perturbed]) ! r) (y ! r)) magnitude
          in (if k < x_n p then entry Kx r k else entry Kb r (k - x_n p))
               = (if isnan q \<or> isinf q then Fin 0 else q))"
    if k: "k < x_n p + b_n p" and r: "r < y_n p" for k r
  proof -
    from k len keys have "m (?names ! k) \<noteq> None" by (metis nth_mem)
    then obtain fac where fac: "m (?names ! k) = Some fac" by auto
    have err: "(x_a_err p @ b_p_err p) ! k = fsqrt ((diag (S_a p) @ diag (S_b p)) ! k)"
      by (rule xb_err_nth[OF ws k])
    show ?thesis
      apply (rule exI[of _ fac])
      using k r fac
      by (simp add: Kx Kb entry_cols_slice nrows_mk_mat entry_mk_mat err Let_def
          disturbed_value_def dist_of_def zero_nonfinite_def del: map_append)
  qed
  show ?thesis using m ent fin by blast
qed

lemma getJacobian_factor_zero:
  "useFactorInJac p \<Longrightarrow> list_ex (\<lambda>v. feq v (Fin 0)) xb \<Longrightarrow> getJacobian p xb y = Inl AssertionError"
  by (simp add: getJacobian_def)

lemma getJacobian_zero_dist:
  assumes ws: "well_shaped p" and add: "\<not> useFactorInJac p" and y: "0 < y_n p"
    and m: "disturbances_of p (x_vars p @ b_vars p) = Inr m"
    and k: "k < x_n p + b_n p" and fac: "m ((x_vars p @ b_vars p) ! k) = Some fac"
    and z: "feq (fmul fac (fsqrt ((diag (S_a p) @ diag (S_b p)) ! k))) (Fin 0)"
  shows "getJacobian p xb y' = Inl AssertionError \<or> getJacobian p xb y' = Inl KeyError"
proof (cases "list_ex (\<lambda>key. m key = None) (x_vars p @ b_vars p)")
  case True
  then show ?thesis using add m by (simp add: getJacobian_def Let_def)
next
  case False
  let ?names = "x_vars p @ b_vars p"
  have len: "length ?names = x_n p + b_n p" by (simp add: x_n_def b_n_def)
  have err: "(x_a_err p @ b_p_err p) ! k = fsqrt ((diag (S_a p) @ diag (S_b p)) ! k)"
    by (rule xb_err_nth[OF ws k])
  have "\<not> fne (dist_of p (xb ! k) (map (\<lambda>key. the (m key)) ?names ! k) ((x_a_err p @ b_p_err p) ! k)) (Fin 0)"
    using add z k len fac by (simp add: dist_of_def err fne_def del: map_append)
  then have "list_ex (\<lambda>d. \<not> fne d (Fin 0))
      (map (\<lambda>k. dist_of p (xb ! k) (map (\<lambda>key. the (m key)) ?names ! k) ((x_a_err p @ b_p_err p) ! k))
           [0..<length ?names])"
    using k len unfolding list_ex_iff by (auto simp del: map_append)
  then show ?thesis using add m y False by (simp add: getJacobian_def Let_def del: map_append)
qed

text \<open>
  C6.  For a problem of the constructor's shapes: when \<open>getJacobian\<close> returns, every
  variable \<open>k\<close> of the concatenated state and parameter vector has a configured factor,
  and the Jacobian entry for measurement \<open>r\<close> and variable \<open>k\<close> (in \<open>K_x\<close> for a
  state variable, in \<open>K_b\<close> for a parameter) is the perturbed measurement minus the base
  measurement, divided by the perturbation magnitude, with NaN and infinite quotients
  replaced by 0; the perturbed value is value + factor * sqrt(prior variance) in additive
  mode and value * factor in multiplicative mode, the magnitude factor * sqrt(prior
  variance) and value * (factor - 1).  No entry of the result is NaN or infinite.  The
  computation fails with an assertion error in multiplicative mode when a component is
  zero, and fails in additive mode when a perturbation magnitude is zero (and there is a
  measurement).
\<close>

theorem getJacobian_finite_differences:
  assumes ws: "well_shaped p"
  shows "(\<forall>Kx Kb. getJacobian p xb y = Inr (Kx, Kb) \<longrightarrow>
      (\<exists>disturbances. disturbances_of p (x_vars p @ b_vars p) = Inr disturbances \<and>
        (\<forall>k < x_n p + b_n p. \<forall>r < y_n p. \<exists>fac.
           disturbances ((x_vars p @ b_vars p) ! k) = Some fac \<and>
           (let var = (diag (S_a p) @ diag (S_b p)) ! k;
                perturbed = (if useFactorInJac p then fmul (xb ! k) fac
                             else fadd (xb ! k) (fmul fac (fsqrt var)));
                magnitude = (if useFactorInJac p then fmul (xb ! k) (fsub fac (Fin 1))
                             else fmul fac (fsqrt var));
                q = fdiv (fsub (forward p (xb[k := perturbed]) ! r) (y ! r)) magnitude
            in (if k < x_n p then entry Kx r k else entry Kb r (k - x_n p))
                 = (if isnan q \<or> isinf q then Fin 0 else q))))
      \<and> \<not> mat_any (\<lambda>v. isnan v \<or> isinf v) Kx \<and> \<not> mat_any (\<lambda>v. isnan v \<or> isinf v) Kb)
   \<and> (useFactorInJac p \<and> list_ex (\<lambda>v. feq v (Fin 0)) xb \<longrightarrow>
        getJacobian p xb y = Inl AssertionError)
   \<and> (\<not> useFactorInJac p \<and> 0 < y_n p \<and>
        (\<exists>m k fac. disturbances_of p (x_vars p @ b_vars p) = Inr m \<and> k < x_n p + b_n p
           \<and> m ((x_vars p @ b_vars p) ! k) = Some fac
           \<and> feq (fmul fac (fsqrt ((diag (S_a p) @ diag (S_b p)) ! k))) (Fin 0)) \<longrightarrow>
        (\<exists>e. getJacobian p xb y = Inl e))"
proof (intro conjI allI impI)
  fix Kx Kb assume ok: "getJacobian p xb y = Inr (Kx, Kb)"
  from getJacobian_ok_entries[OF ws ok]
  show "\<exists>disturbances. disturbances_of p (x_vars p @ b_vars p) = Inr disturbances \<and>
        (\<forall>k < x_n p + b_n p. \<forall>r < y_n p. \<exists>fac.
           disturbances ((x_vars p @ b_vars p) ! k) = Some fac \<and>
           (let var = (diag (S_a p) @ diag (S_b p)) ! k;
                perturbed = (if useFactorInJac p then fmul (xb ! k) fac
                             else fadd (xb ! k) (fmul fac (fsqrt var)));
                magnitude = (if useFactorInJac p then fmul (xb ! k) (fsub fac (Fin 1))
                             else fmul fac (fsqrt var));
                q = fdiv (fsub (forward p (xb[k := perturbed]) ! r) (y ! r)) magnitude
            in (if k < x_n p then entry Kx r k else entry Kb r (k - x_n p))
                 = (if isnan q \<or> isinf q then Fin 0 else q)))"
    and "\<not> mat_any (\<lambda>v. isnan v \<or> isinf v) Kx" and "\<not> mat_any (\<lambda>v. isnan v \<or> isinf v) Kb"
    by blast+
next
  assume "useFactorInJac p \<and> list_ex (\<lambda>v. feq v (Fin 0)) xb"
  then show "getJacobian p xb y = Inl AssertionError"
    by (simp add: getJacobian_factor_zero)
next
  assume h: "\<not> useFactorInJac p \<and> 0 < y_n p \<and>
        (\<exists>m k fac. disturbances_of p (x_vars p @ b_vars p) = Inr m \<and> k < x_n p + b_n p
           \<and> m ((x_vars p @ b_vars p) ! k) = Some fac
           \<and> feq (fmul fac (fsqrt ((diag (S_a p) @ diag (S_b p)) ! k))) (Fin 0))"
  then show "\<exists>e. getJacobian p xb y = Inl e"
    using getJacobian_zero_dist[OF ws] by blast
qed

lemma problem_1d_shaped: "well_shaped problem_1d"
  by (simp add: well_shaped_def problem_1d_def wf_mat_def x_n_def y_n_def b_n_def)

lemma jac0: "getJacobian problem_1d [Fin 0] [Fin 0] = Inr (Mat 1 1 [[Fin 1]], Mat 1 0 [[]])"
  by (simp add: getJacobian_def problem_1d_def Let_def disturbances_of_def x_a_err_def b_p_err_def
      diag_def entry_def feq_def fne_def dist_of_def disturbed_value_def y_n_def x_n_def b_n_def
      kinked_forward_def mk_mat_def mat_map_def cols_slice_def fsub_def zero_nonfinite_def isnan_def isinf_def)

theorem getJacobian_finite_differences_witness:
  "well_shaped problem_1d
   \<and> getJacobian problem_1d [Fin 0] [Fin 0] = Inr (Mat 1 1 [[Fin 1]], Mat 1 0 [[]])
   \<and> entry (Mat 1 1 [[Fin 1]]) 0 0
       = fdiv (fsub (forward problem_1d [fadd (Fin 0) (fmul (Fin (1 / 2)) (fsqrt (Fin 1)))] ! 0) (Fin 0))
              (fmul (Fin (1 / 2)) (fsqrt (Fin 1)))
   \<and> \<not> mat_any (\<lambda>v. isnan v \<or> isinf v) (Mat 1 1 [[Fin 1]])
   \<and> well_shaped (problem_1d\<lparr>useFactorInJac := True\<rparr>)
   \<and> getJacobian (problem_1d\<lparr>useFactorInJac := True\<rparr>) [Fin 0] [Fin 0] = Inl AssertionError
   \<and> well_shaped (problem_1d\<lparr>S_a := Mat 1 1 [[Fin 0]]\<rparr>)
   \<and> (\<exists>e. getJacobian (problem_1d\<lparr>S_a := Mat 1 1 [[Fin 0]]\<rparr>) [Fin 0] [Fin 0] = Inl e)"
proof -
  have a: "well_shaped (problem_1d\<lparr>useFactorInJac := True\<rparr>)"
    and b: "well_shaped (problem_1d\<lparr>S_a := Mat 1 1 [[Fin 0]]\<rparr>)"
    by (simp_all add: well_shaped_def problem_1d_def wf_mat_def x_n_def y_n_def b_n_def)
  have z: "disturbances_of (problem_1d\<lparr>S_a := Mat 1 1 [[Fin 0]]\<rparr>) [''x'']
             = Inr (\<lambda>key. if key \<in> set [''x''] then Some (Fin (1 / 2)) else None)"
    by (simp add: disturbances_of_def problem_1d_def)
  show ?thesis
    using getJacobian_finite_differences [OF problem_1d_shaped, of "[Fin 0]" "[Fin 0]"]
          getJacobian_finite_differences [OF a, of "[Fin 0]" "[Fin 0]"]
          getJacobian_finite_differences [OF b, of "[Fin 0]" "[Fin 0]"]
          problem_1d_shaped a b jac0 z
    apply (simp add: problem_1d_def x_n_def y_n_def b_n_def feq_def mat_any_def isnan_def isinf_def
        entry_def kinked_forward_def fsub_def)
    apply (simp add: diag_def entry_def)
    done
qed

section \<open>Evaluating the one-dimensional problem\<close>

lemmas mat_defs = mat_any_def mat_all_def mat_map_def mk_mat_def entry_def dot_def transpose_mat_def
  mat_vec_def vec_mat_def vec_dot_def vec_add_def vec_sub_def mat_add_def mat_sub_def mat_scale_def
  identity_def diag_def trace_def fsum_def cols_slice_def nan_like_def

lemmas float_defs = isnan_def isinf_def fsub_def fgt_def feq_def fne_def zero_nonfinite_def

lemmas lib_defs = numlib_1x1_def cond_1x1_def inv_1x1_def det_1x1_def eig_1x1_def invertMatrix_def

lemmas jac_defs = getJacobian_def disturbances_of_def disturbed_value_def dist_of_def
  x_a_err_def b_p_err_def x_n_def y_n_def b_n_def

lemmas it_defs = iteration_def S_Ep_loop_def boundRepair_def repair_component_def val_def jac_defs
  lib_defs float_defs mat_defs problem_1d_def kinked_forward_def Let_def

lemmas run_simps = doRetrieval_def retrieval_loop_def initial_gam_def loop_body_def Let_def
  terminationChecks_def criterion_def finalize_def val_def new_engine_def eval_nat_numeral

lemma iteration_1d_0:
  assumes "x_i s ! 0 = Val [Fin 0]" "y_i s ! 0 = Val [Fin 0]"
    "S_a_inv s = Val (Mat 1 1 [[Fin 1]])" "gam_i s ! 0 = Fin 1"
  shows "iteration (numlib_1x1 isf) problem_1d 0 s =
    Inr (s\<lparr>K_i := (K_i s)[0 := Val (Mat 1 1 [[Fin 1]])],
           K_b_i := (K_b_i s)[0 := Val (Mat 1 0 [[]])],
           x_i := (x_i s)[Suc 0 := Val [Fin 1]],
           y_i := (y_i s)[Suc 0 := Val [Fin (9 / 8)]],
           dgf_i := (dgf_i s)[0 := Fin (1 / 2)],
           H_i := (H_i s)[0 := Fin (- (ln (1 / 2) / 2))],
           A_i := (A_i s)[0 := Val (Mat 1 1 [[Fin (1 / 2)]])],
           d_i2 := (d_i2 s)[0 := Fin 2],
           S_aposterior_i := (S_aposterior_i s)[0 := Val (Mat 1 1 [[Fin (1 / 2)]])]\<rparr>)"
  using assms by (simp add: it_defs)

lemma iteration_1d_1:
  assumes "x_i s ! Suc 0 = Val [Fin 1]" "y_i s ! Suc 0 = Val [Fin (9 / 8)]"
    "S_a_inv s = Val (Mat 1 1 [[Fin 1]])" "gam_i s ! Suc 0 = Fin 1"
  shows "iteration (numlib_1x1 isf) problem_1d (Suc 0) s =
    Inr (s\<lparr>K_i := (K_i s)[Suc 0 := Val (Mat 1 1 [[Fin 1]])],
           K_b_i := (K_b_i s)[Suc 0 := Val (Mat 1 0 [[]])],
           x_i := (x_i s)[Suc (Suc 0) := Val [Fin (15 / 16)]],
           y_i := (y_i s)[Suc (Suc 0) := Val [Fin (15 / 16)]],
           dgf_i := (dgf_i s)[Suc 0 := Fin (1 / 2)],
           H_i := (H_i s)[Suc 0 := Fin (- (ln (1 / 2) / 2))],
           A_i := (A_i s)[Suc 0 := Val (Mat 1 1 [[Fin (1 / 2)]])],
           d_i2 := (d_i2 s)[Suc 0 := Fin (1 / 128)],
           S_aposterior_i := (S_aposterior_i s)[Suc 0 := Val (Mat 1 1 [[Fin (1 / 2)]])]\<rparr>)"
  using assms by (simp add: it_defs)

lemma iteration_1d_2:
  assumes "x_i s ! Suc (Suc 0) = Val [Fin (15 / 16)]" "y_i s ! Suc (Suc 0) = Val [Fin (15 / 16)]"
    "S_a_inv s = Val (Mat 1 1 [[Fin 1]])" "gam_i s ! Suc (Suc 0) = Fin 1"
  shows "iteration (numlib_1x1 isf) problem_1d (Suc (Suc 0)) s =
    Inr (s\<lparr>K_i := (K_i s)[Suc (Suc 0) := Val (Mat 1 1 [[Fin (5 / 4)]])],
           K_b_i := (K_b_i s)[Suc (Suc 0) := Val (Mat 1 0 [[]])],
           x_i := (x_i s)[Suc (Suc (Suc 0)) := Val [Fin (715 / 656)]],
           y_i := (y_i s)[Suc (Suc (Suc 0)) := Val [Fin (797 / 656)]],
           dgf_i := (dgf_i s)[Suc (Suc 0) := Fin (25 / 41)],
           H_i := (H_i s)[Suc (Suc 0) := Fin (- (ln (16 / 41) / 2))],
           A_i := (A_i s)[Suc (Suc 0) := Val (Mat 1 1 [[Fin (25 / 41)]])],
           d_i2 := (d_i2 s)[Suc (Suc 0) := Fin (625 / 10496)],
           S_aposterior_i := (S_aposterior_i s)[Suc (Suc 0) := Val (Mat 1 1 [[Fin (16 / 41)]])]\<rparr>)"
  using assms by (simp add: it_defs)

lemma problem_1d_fields:
  "x_a problem_1d = [Fin 0]" "S_a problem_1d = Mat 1 1 [[Fin 1]]" "b_p problem_1d = []"
  "forward problem_1d = kinked_forward" "gammaFactor problem_1d = None"
  "convergenceFactor problem_1d = Fin 10" "y_n problem_1d = 1" "S_y problem_1d = Mat 1 1 [[Fin 1]]"
  "S_b problem_1d = Mat 0 0 []" "y_obs problem_1d = [Fin 2]"
  by (simp_all add: problem_1d_def y_n_def)

lemma invert_one:
  "invertMatrix (numlib_1x1 isf) (Mat (Suc 0) (Suc 0) [[Fin 1]]) True = Inr (Mat 1 1 [[Fin 1]], [])"
  by (simp add: lib_defs float_defs mat_defs)

lemmas eval_1d = run_simps invert_one problem_1d_fields kinked_forward_def iteration_1d_0
  iteration_1d_1 iteration_1d_2 float_defs mat_defs

lemma run_1d_2:
  "doRetrieval (numlib_1x1 isf) (\<lambda>i. Fin 0) problem_1d new_engine 2 None (Fin 10000000) =
   Inr \<lparr>converged = True, S_a_inv = Val (Mat 1 1 [[Fin 1]]),
        K_i = [Val (Mat 1 1 [[Fin 1]]), Val (Mat 1 1 [[Fin 1]])],
        K_b_i = [Val (Mat 1 0 [[]]), Val (Mat 1 0 [[]])],
        x_i = [Val [Fin 0], Val [Fin 1], Val [Fin (15 / 16)]],
        y_i = [Val [Fin 0], Val [Fin (9 / 8)], Val [Fin (15 / 16)]],
        dgf_i = [Fin (1 / 2), Fin (1 / 2)],
        H_i = [Fin (- (ln (1 / 2) / 2)), Fin (- (ln (1 / 2) / 2))],
        A_i = [Val (Mat 1 1 [[Fin (1 / 2)]]), Val (Mat 1 1 [[Fin (1 / 2)]])],
        d_i2 = [Fin 2, Fin (1 / 128)],
        S_aposterior_i = [Val (Mat 1 1 [[Fin (1 / 2)]]), Val (Mat 1 1 [[Fin (1 / 2)]])],
        gam_i = [Fin 1, Fin 1], convI = Val 1, x_op = Val [Fin 1], y_op = Val [Fin (9 / 8)],
        S_op = Val (Mat 1 1 [[Fin (1 / 2)]]), x_op_err = Val [Fin (sqrt (1 / 2))],
        dgf = Val (Fin (1 / 2)), dgf_x = Val [Fin (1 / 2)], S_Ep = Val (Mat 1 1 [[Fin 1]]),
        y_a_cache = PyNone, chi2Results = None, printed = [CriteriaFulfilled 1], warned = []\<rparr>"
  by (simp add: eval_1d)

lemma run_1d_3:
  "doRetrieval (numlib_1x1 isf) (\<lambda>i. Fin 0) problem_1d new_engine 3 None (Fin 10000000)
     = Inr result_1d_3"
  by (simp add: eval_1d result_1d_3_def)

lemma loop_1d_1:
  "retrieval_loop (numlib_1x1 isf) (\<lambda>i. Fin 0) problem_1d new_engine 1 None (Fin 10000000) =
   Inr (0, Continue,
     new_engine\<lparr>S_a_inv := Val (Mat 1 1 [[Fin 1]]),
        K_i := [Val (Mat 1 1 [[Fin 1]])], K_b_i := [Val (Mat 1 0 [[]])],
        x_i := [Val [Fin 0], Val [Fin 1]], y_i := [Val [Fin 0], Val [Fin (9 / 8)]],
        dgf_i := [Fin (1 / 2)], H_i := [Fin (- (ln (1 / 2) / 2))],
        A_i := [Val (Mat 1 1 [[Fin (1 / 2)]])], d_i2 := [Fin 2],
        S_aposterior_i := [Val (Mat 1 1 [[Fin (1 / 2)]])], gam_i := [Fin 1]\<rparr>)"
  by (simp add: eval_1d)

lemma loop_1d_timeout:
  "retrieval_loop (numlib_1x1 isf) (\<lambda>i. Fin 1) problem_1d new_engine 1 None (Fin 0) =
   Inr (0, BreakMaxTime,
     new_engine\<lparr>S_a_inv := Val (Mat 1 1 [[Fin 1]]),
        K_i := [Val (Mat 1 1 [[Fin 1]])], K_b_i := [Val (Mat 1 0 [[]])],
        x_i := [Val [Fin 0], Val [Fin 1]], y_i := [Val [Fin 0], Val [Fin (9 / 8)]],
        dgf_i := [Fin (1 / 2)], H_i := [Fin (- (ln (1 / 2) / 2))],
        A_i := [Val (Mat 1 1 [[Fin (1 / 2)]])], d_i2 := [Fin 2],
        S_aposterior_i := [Val (Mat 1 1 [[Fin (1 / 2)]])], gam_i := [Fin 1],
        printed := [MaximumTimeExceeded 0]\<rparr>)"
  by (simp add: eval_1d)

lemma loop_1d_setup:
  "retrieval_loop (numlib_1x1 isf) elapsed problem_1d new_engine 2 None maxTime =
   for_loop (loop_body (numlib_1x1 isf) elapsed problem_1d maxTime) [0, Suc 0] 0 start_1d"
  by (simp add: retrieval_loop_def initial_gam_def Let_def invert_one problem_1d_fields
      kinked_forward_def start_1d_def new_engine_def eval_nat_numeral)

lemma loop_body_1d_0:
  "loop_body (numlib_1x1 isf) (\<lambda>i. Fin 0) problem_1d (Fin 10000000) 0 start_1d
     = Inr (Continue, pass0_1d)"
  by (simp add: loop_body_def iteration_1d_0 terminationChecks_def start_1d_def pass0_1d_def
      new_engine_def float_defs)

lemma loop_body_1d_1:
  "loop_body (numlib_1x1 isf) (\<lambda>i. Fin 0) problem_1d (Fin 10000000) (Suc 0) pass0_1d
     = Inr (Continue, pass1_1d)"
  by (simp add: loop_body_def iteration_1d_1 terminationChecks_def criterion_def start_1d_def
      pass0_1d_def pass1_1d_def new_engine_def float_defs problem_1d_fields)

lemma iteration_neg_0:
  assumes "x_i s ! 0 = Val [Fin 0]" "y_i s ! 0 = Val [Fin 0]"
    "S_a_inv s = Val (Mat 1 1 [[Fin 1]])" "gam_i s ! 0 = Fin 1"
  shows "iteration (numlib_1x1 isf) problem_neg (0) s =
    Inr (s\<lparr>K_i := (K_i s)[0 := Val (Mat 1 1 [[Fin 1]])],
           K_b_i := (K_b_i s)[0 := Val (Mat 1 0 [[]])],
           x_i := (x_i s)[Suc 0 := Val [Fin 1]],
           y_i := (y_i s)[Suc 0 := Val [Fin (9 / 8)]],
           dgf_i := (dgf_i s)[0 := Fin (- 1)],
           H_i := (H_i s)[0 := Fin (- (ln 2 / 2))],
           A_i := (A_i s)[0 := Val (Mat 1 1 [[Fin (- 1)]])],
           d_i2 := (d_i2 s)[0 := Fin (1 / 2)],
           S_aposterior_i := (S_aposterior_i s)[0 := Val (Mat 1 1 [[Fin 2]])]\<rparr>)"
  using assms by (simp add: it_defs problem_neg_def problem_fit_def fitting_forward_def)

lemma iteration_neg_1:
  assumes "x_i s ! Suc 0 = Val [Fin 1]" "y_i s ! Suc 0 = Val [Fin (9 / 8)]"
    "S_a_inv s = Val (Mat 1 1 [[Fin 1]])" "gam_i s ! Suc 0 = Fin 1"
  shows "iteration (numlib_1x1 isf) problem_neg (Suc 0) s =
    Inr (s\<lparr>K_i := (K_i s)[Suc 0 := Val (Mat 1 1 [[Fin 1]])],
           K_b_i := (K_b_i s)[Suc 0 := Val (Mat 1 0 [[]])],
           x_i := (x_i s)[Suc (Suc 0) := Val [Fin (9 / 8)]],
           y_i := (y_i s)[Suc (Suc 0) := Val [Fin (5 / 4)]],
           dgf_i := (dgf_i s)[Suc 0 := Fin (- 1)],
           H_i := (H_i s)[Suc 0 := Fin (- (ln 2 / 2))],
           A_i := (A_i s)[Suc 0 := Val (Mat 1 1 [[Fin (- 1)]])],
           d_i2 := (d_i2 s)[Suc 0 := Fin (1 / 128)],
           S_aposterior_i := (S_aposterior_i s)[Suc 0 := Val (Mat 1 1 [[Fin 2]])]\<rparr>)"
  using assms by (simp add: it_defs problem_neg_def problem_fit_def fitting_forward_def)

lemma iteration_neg_2:
  assumes "x_i s ! Suc (Suc 0) = Val [Fin (9 / 8)]" "y_i s ! Suc (Suc 0) = Val [Fin (5 / 4)]"
    "S_a_inv s = Val (Mat 1 1 [[Fin 1]])" "gam_i s ! Suc (Suc 0) = Fin 1"
  shows "iteration (numlib_1x1 isf) problem_neg (Suc (Suc 0)) s =
    Inr (s\<lparr>K_i := (K_i s)[Suc (Suc 0) := Val (Mat 1 1 [[Fin 1]])],
           K_b_i := (K_b_i s)[Suc (Suc 0) := Val (Mat 1 0 [[]])],
           x_i := (x_i s)[Suc (Suc (Suc 0)) := Val [Fin (9 / 8)]],
           y_i := (y_i s)[Suc (Suc (Suc 0)) := Val [Fin (5 / 4)]],
           dgf_i := (dgf_i s)[Suc (Suc 0) := Fin (- 1)],
           H_i := (H_i s)[Suc (Suc 0) := Fin (- (ln 2 / 2))],
           A_i := (A_i s)[Suc (Suc 0) := Val (Mat 1 1 [[Fin (- 1)]])],
           d_i2 := (d_i2 s)[Suc (Suc 0) := Fin 0],
           S_aposterior_i := (S_aposterior_i s)[Suc (Suc 0) := Val (Mat 1 1 [[Fin 2]])]\<rparr>)"
  using assms by (simp add: it_defs problem_neg_def problem_fit_def fitting_forward_def)

lemma iteration_fit_0:
  assumes "x_i s ! 0 = Val [Fin 0]" "y_i s ! 0 = Val [Fin 0]"
    "S_a_inv s = Val (Mat 1 1 [[Fin 1]])" "gam_i s ! 0 = Fin 1"
  shows "iteration (numlib_1x1 isf) problem_fit (0) s =
    Inr (s\<lparr>K_i := (K_i s)[0 := Val (Mat 1 1 [[Fin 1]])],
           K_b_i := (K_b_i s)[0 := Val (Mat 1 0 [[]])],
           x_i := (x_i s)[Suc 0 := Val [Fin 1]],
           y_i := (y_i s)[Suc 0 := Val [Fin (9 / 8)]],
           dgf_i := (dgf_i s)[0 := Fin (1 / 2)],
           H_i := (H_i s)[0 := Fin (- (ln (1 / 2) / 2))],
           A_i := (A_i s)[0 := Val (Mat 1 1 [[Fin (1 / 2)]])],
           d_i2 := (d_i2 s)[0 := Fin 2],
           S_aposterior_i := (S_aposterior_i s)[0 := Val (Mat 1 1 [[Fin (1 / 2)]])]\<rparr>)"
  using assms by (simp add: it_defs problem_neg_def problem_fit_def fitting_forward_def)

lemma iteration_fit_1:
  assumes "x_i s ! Suc 0 = Val [Fin 1]" "y_i s ! Suc 0 = Val [Fin (9 / 8)]"
    "S_a_inv s = Val (Mat 1 1 [[Fin 1]])" "gam_i s ! Suc 0 = Fin 1"
  shows "iteration (numlib_1x1 isf) problem_fit (Suc 0) s =
    Inr (s\<lparr>K_i := (K_i s)[Suc 0 := Val (Mat 1 1 [[Fin 1]])],
           K_b_i := (K_b_i s)[Suc 0 := Val (Mat 1 0 [[]])],
           x_i := (x_i s)[Suc (Suc 0) := Val [Fin (15 / 16)]],
           y_i := (y_i s)[Suc (Suc 0) := Val [Fin 2]],
           dgf_i := (dgf_i s)[Suc 0 := Fin (1 / 2)],
           H_i := (H_i s)[Suc 0 := Fin (- (ln (1 / 2) / 2))],
           A_i := (A_i s)[Suc 0 := Val (Mat 1 1 [[Fin (1 / 2)]])],
           d_i2 := (d_i2 s)[Suc 0 := Fin (1 / 128)],
           S_aposterior_i := (S_aposterior_i s)[Suc 0 := Val (Mat 1 1 [[Fin (1 / 2)]])]\<rparr>)"
  using assms by (simp add: it_defs problem_neg_def problem_fit_def fitting_forward_def)

lemma iteration_fit_2:
  assumes "x_i s ! Suc (Suc 0) = Val [Fin (15 / 16)]" "y_i s ! Suc (Suc 0) = Val [Fin 2]"
    "S_a_inv s = Val (Mat 1 1 [[Fin 1]])" "gam_i s ! Suc (Suc 0) = Fin 1"
  shows "iteration (numlib_1x1 isf) problem_fit (Suc (Suc 0)) s =
    Inr (s\<lparr>K_i := (K_i s)[Suc (Suc 0) := Val (Mat 1 1 [[Fin (- (7 / 8))]])],
           K_b_i := (K_b_i s)[Suc (Suc 0) := Val (Mat 1 0 [[]])],
           x_i := (x_i s)[Suc (Suc (Suc 0)) := Val [Fin (735 / 1808)]],
           y_i := (y_i s)[Suc (Suc (Suc 0)) := Val [Fin (735 / 1808)]],
           dgf_i := (dgf_i s)[Suc (Suc 0) := Fin (49 / 113)],
           H_i := (H_i s)[Suc (Suc 0) := Fin (- (ln (64 / 113) / 2))],
           A_i := (A_i s)[Suc (Suc 0) := Val (Mat 1 1 [[Fin (49 / 113)]])],
           d_i2 := (d_i2 s)[Suc (Suc 0) := Fin (225 / 452)],
           S_aposterior_i := (S_aposterior_i s)[Suc (Suc 0) := Val (Mat 1 1 [[Fin (64 / 113)]])]\<rparr>)"
  using assms by (simp add: it_defs problem_neg_def problem_fit_def fitting_forward_def)

lemma problem_neg_fields:
  "x_a problem_neg = [Fin 0]" "S_a problem_neg = Mat 1 1 [[Fin 1]]" "b_p problem_neg = []"
  "forward problem_neg = kinked_forward" "gammaFactor problem_neg = None"
  "convergenceFactor problem_neg = Fin 10" "y_n problem_neg = 1"
  "S_y problem_neg = Mat 1 1 [[Fin (- 2)]]" "S_b problem_neg = Mat 0 0 []"
  "y_obs problem_neg = [Fin (- 1)]"
  by (simp_all add: problem_neg_def problem_1d_def y_n_def)

lemma problem_fit_fields:
  "x_a problem_fit = [Fin 0]" "S_a problem_fit = Mat 1 1 [[Fin 1]]" "b_p problem_fit = []"
  "forward problem_fit = fitting_forward" "gammaFactor problem_fit = None"
  "convergenceFactor problem_fit = Fin 10" "y_n problem_fit = 1"
  "S_y problem_fit = Mat 1 1 [[Fin 1]]" "S_b problem_fit = Mat 0 0 []"
  "y_obs problem_fit = [Fin 2]"
  by (simp_all add: problem_fit_def problem_1d_def y_n_def)

lemmas eval_neg = run_simps invert_one problem_neg_fields kinked_forward_def iteration_neg_0
  iteration_neg_1 iteration_neg_2 float_defs mat_defs

lemmas eval_fit = run_simps invert_one problem_fit_fields kinked_forward_def fitting_forward_def
  iteration_fit_0 iteration_fit_1 iteration_fit_2 float_defs mat_defs

lemmas chi_defs = chiSquareTestYOptimalObservation_def attr_values_def list_at_def py_index_def
  val_def testChi2_def estimateChi2_def lib_defs float_defs mat_defs Let_def

lemma run_neg_3:
  "doRetrieval (numlib_1x1 isf) (\<lambda>i. Fin 0) problem_neg new_engine 3 None (Fin 10000000)
     = Inr result_neg_3"
  by (simp add: eval_neg result_neg_3_def result_1d_3_def)

lemma run_fit_3:
  "doRetrieval (numlib_1x1 isf) (\<lambda>i. Fin 0) problem_fit new_engine 3 None (Fin 10000000)
     = Inr result_fit_3"
  by (simp add: eval_fit result_fit_3_def result_1d_3_def)

lemma test_1d_3:
  "chiSquareTestYOptimalObservation (numlib_1x1 isf) problem_1d result_1d_3 (Fin (1 / 20))
     (Fin (1 / 100000)) = Inr ((Fin (11849 / 4096), isf (Fin (1 / 20)) 1), result_1d_3)"
  by (simp add: chi_defs problem_1d_fields result_1d_3_def)

lemma test_neg_3:
  "chiSquareTestYOptimalObservation (numlib_1x1 isf) problem_neg result_neg_3 (Fin (1 / 20))
     (Fin (1 / 100000)) = Inr ((Fin (- (81 / 64)), isf (Fin (1 / 20)) 1), result_neg_3)"
  by (simp add: chi_defs problem_neg_fields result_neg_3_def result_1d_3_def)

lemma test_fit_3:
  "chiSquareTestYOptimalObservation (numlib_1x1 isf) problem_fit result_fit_3 (Fin (1 / 20))
     (Fin (1 / 100000)) = Inr ((Fin 0, isf (Fin (1 / 20)) 1), result_fit_3)"
  by (simp add: chi_defs problem_fit_fields result_fit_3_def result_1d_3_def)

section \<open>Bound repair\<close>

lemma repair_loop_fst:
  "distinct js \<Longrightarrow> \<forall>j\<in>set js. j < length x \<Longrightarrow>
     length (fst (repair_loop p i js x ns)) = length x
     \<and> (\<forall>k<length x. fst (repair_loop p i js x ns) ! k =
           (if k \<in> set js then fst (repair_component p i k (x_vars p ! k) (x ! k)) else x ! k))"
proof (induction js arbitrary: x ns)
  case Nil
  then show ?case by simp
next
  case (Cons jj js)
  obtain v n where vn: "repair_component p i jj (x_vars p ! jj) (x ! jj) = (v, n)"
    by (cases "repair_component p i jj (x_vars p ! jj) (x ! jj)")
  have d: "distinct js" and b: "\<forall>j\<in>set js. j < length (x[jj := v])" and nin: "jj \<notin> set js"
    and jj: "jj < length x"
    using Cons.prems by auto
  from Cons.IH[OF d b, of "ns @ n"] show ?case
    using vn nin jj by (auto simp: nth_list_update)
qed

lemma repair_loop_snd:
  "(\<forall>j\<in>set js. snd (repair_component p i j (x_vars p ! j) (x ! j)) = []) \<Longrightarrow> distinct js \<Longrightarrow>
     \<forall>j\<in>set js. j < length x \<Longrightarrow> snd (repair_loop p i js x ns) = ns"
proof (induction js arbitrary: x ns)
  case Nil
  then show ?case by simp
next
  case (Cons jj js)
  obtain v n where vn: "repair_component p i jj (x_vars p ! jj) (x ! jj) = (v, n)"
    by (cases "repair_component p i jj (x_vars p ! jj) (x ! jj)")
  have n: "n = []" using Cons.prems(1) vn by simp
  have nin: "jj \<notin> set js" using Cons.prems by simp
  have "\<forall>j\<in>set js. snd (repair_component p i j (x_vars p ! j) (x[jj := v] ! j)) = []"
    using Cons.prems(1) nin by (metis list.set_intros(2) nth_list_update_neq)
  moreover have "distinct js" "\<forall>j\<in>set js. j < length (x[jj := v])" using Cons.prems by auto
  ultimately have "snd (repair_loop p i js (x[jj := v]) ns) = ns" by (rule Cons.IH)
  then show ?case using vn n by simp
qed

lemma repair_component_fst:
  "fst (repair_component p i jj xKey v) =
     (if (\<exists>lo. x_lowerLimit p xKey = Some lo \<and> flt v lo)
         \<or> (\<exists>up. x_upperLimit p xKey = Some up \<and> fgt v up)
         \<or> isnan v
      then x_a p ! jj else v)"
  by (auto simp: repair_component_def Let_def split: option.splits prod.splits if_splits)

lemma repair_component_snd:
  "\<not> ((\<exists>lo. x_lowerLimit p xKey = Some lo \<and> flt v lo)
         \<or> (\<exists>up. x_upperLimit p xKey = Some up \<and> fgt v up)
         \<or> isnan v) \<Longrightarrow> snd (repair_component p i jj xKey v) = []"
  by (auto simp: repair_component_def Let_def split: option.splits prod.splits if_splits)

lemma iteration_repaired:
  assumes "iteration nl p i s = Inr s'" "Suc i < length (x_i s)"
  shows "\<exists>x_next. x_i s' ! Suc i = Val (fst (boundRepair p i x_next))
          \<and> printed s' = printed s @ snd (boundRepair p i x_next)"
  using assms
  apply (clarsimp simp: iteration_def Let_def split: sum.splits prod.splits)
  apply (metis fst_conv snd_conv)
  done

text \<open>
  C7.  For a new state of the length of the name list, the repair leaves a vector of the
  same length in which every component that is under its configured lower limit, over its
  configured upper limit, or NaN holds the prior value of that component (not the limit),
  and every other component holds its updated value; with no such component the vector is
  unchanged and nothing is printed.  The repair is a total function: it returns the
  repaired vector and the notices, and has no error result.  In every pass of the loop
  that completes, the state stored at \<open>i + 1\<close> is the repaired vector and the notices
  are what the pass prints.
\<close>

theorem boundRepair_resets_to_prior:
  assumes len: "length x = length (x_vars p)"
  shows "length (fst (boundRepair p i x)) = length x
    \<and> (\<forall>jj < length (x_vars p).
         fst (boundRepair p i x) ! jj =
           (if (\<exists>lo. x_lowerLimit p (x_vars p ! jj) = Some lo \<and> flt (x ! jj) lo)
               \<or> (\<exists>up. x_upperLimit p (x_vars p ! jj) = Some up \<and> fgt (x ! jj) up)
               \<or> isnan (x ! jj)
            then x_a p ! jj else x ! jj))
    \<and> ((\<forall>jj < length (x_vars p).
           \<not> ((\<exists>lo. x_lowerLimit p (x_vars p ! jj) = Some lo \<and> flt (x ! jj) lo)
               \<or> (\<exists>up. x_upperLimit p (x_vars p ! jj) = Some up \<and> fgt (x ! jj) up)
               \<or> isnan (x ! jj))) \<longrightarrow> boundRepair p i x = (x, []))
    \<and> (\<forall>nl s s'. iteration nl p i s = Inr s' \<and> Suc i < length (x_i s) \<longrightarrow>
          (\<exists>x_next. x_i s' ! Suc i = Val (fst (boundRepair p i x_next))
             \<and> printed s' = printed s @ snd (boundRepair p i x_next)))"
proof -
  let ?js = "[0..<length (x_vars p)]"
  have d: "distinct ?js" and b: "\<forall>j\<in>set ?js. j < length x" using len by auto
  from repair_loop_fst[OF d b, of p i "[]"]
  have l: "length (fst (boundRepair p i x)) = length x"
    and n: "\<forall>k<length x. fst (boundRepair p i x) ! k =
           (if k \<in> set ?js then fst (repair_component p i k (x_vars p ! k) (x ! k)) else x ! k)"
    by (simp_all add: boundRepair_def)
  have c2: "\<forall>jj < length (x_vars p).
         fst (boundRepair p i x) ! jj =
           (if (\<exists>lo. x_lowerLimit p (x_vars p ! jj) = Some lo \<and> flt (x ! jj) lo)
               \<or> (\<exists>up. x_upperLimit p (x_vars p ! jj) = Some up \<and> fgt (x ! jj) up)
               \<or> isnan (x ! jj)
            then x_a p ! jj else x ! jj)"
    using n len by (simp add: repair_component_fst)
  have c3: "boundRepair p i x = (x, [])"
    if h: "\<forall>jj < length (x_vars p).
           \<not> ((\<exists>lo. x_lowerLimit p (x_vars p ! jj) = Some lo \<and> flt (x ! jj) lo)
               \<or> (\<exists>up. x_upperLimit p (x_vars p ! jj) = Some up \<and> fgt (x ! jj) up)
               \<or> isnan (x ! jj))"
  proof -
    have "\<forall>j\<in>set ?js. snd (repair_component p i j (x_vars p ! j) (x ! j)) = []"
      using h by (simp add: repair_component_snd)
    from repair_loop_snd[OF this d b, of "[]"] have s: "snd (boundRepair p i x) = []"
      by (simp add: boundRepair_def)
    have "fst (boundRepair p i x) = x"
      using l c2 h len by (intro nth_equalityI) auto
    with s show ?thesis by (metis prod.collapse)
  qed
  show ?thesis using l c2 c3 iteration_repaired by blast
qed

section \<open>The convergence check\<close>

lemma iteration_converged: "iteration nl p i s = Inr s' \<Longrightarrow> converged s' = converged s"
  by (auto simp: iteration_def Let_def split: sum.splits prod.splits)

text \<open>
  C2.  In a pass \<open>i\<close> that reaches the convergence check (the previous pass did not flag
  convergence and the time is not exceeded): for \<open>i = 0\<close> the check is skipped, the loop
  goes on and \<open>converged\<close> stays false; for \<open>i \<noteq> 0\<close>, \<open>converged\<close> is true after
  the pass exactly when \<open>|d_i2[i]| < y_n / convergenceFactor\<close>, \<open>gam_i[i] = 1\<close> and
  \<open>d_i2[i] \<noteq> 0\<close>, and the loop breaks (with \<open>converged\<close> false) exactly when that
  criterion fails, \<open>i > 1\<close> and \<open>dgf_i[i] = 0\<close>; otherwise it goes on.
\<close>

theorem convergence_check:
  assumes body: "loop_body nl elapsed p maxTime i s = Inr (c, s')"
    and nc: "\<not> converged s" and nt: "\<not> fgt (elapsed i) maxTime"
  shows "(i = 0 \<longrightarrow> c = Continue \<and> \<not> converged s')
    \<and> (i \<noteq> 0 \<longrightarrow>
         (converged s' \<longleftrightarrow>
            flt (fabs (d_i2 s' ! i)) (fdiv (Fin (real (y_n p))) (convergenceFactor p))
            \<and> feq (gam_i s' ! i) (Fin 1) \<and> fne (d_i2 s' ! i) (Fin 0))
         \<and> (c = BreakDgfZero \<longleftrightarrow> \<not> converged s' \<and> 1 < i \<and> feq (dgf_i s' ! i) (Fin 0))
         \<and> (c = Continue \<or> c = BreakDgfZero))"
proof -
  from body obtain s1 where it: "iteration nl p i s = Inr s1"
    and tc: "terminationChecks elapsed p maxTime i s1 = Inr (c, s')"
    by (auto simp: loop_body_def split: sum.splits)
  have "\<not> converged s1" using iteration_converged[OF it] nc by simp
  with tc nt show ?thesis
    by (auto simp: terminationChecks_def criterion_def split: if_splits)
qed

section \<open>Runs that do not converge\<close>

lemma terminationChecks_break:
  "terminationChecks elapsed p maxTime i s = Inr (c, s') \<Longrightarrow> c = BreakMaxTime \<or> c = BreakDgfZero
     \<Longrightarrow> \<not> converged s'"
  by (auto simp: terminationChecks_def split: if_splits)

lemma loop_body_break:
  "loop_body nl elapsed p maxTime i s = Inr (c, s') \<Longrightarrow> c = BreakMaxTime \<or> c = BreakDgfZero
     \<Longrightarrow> \<not> converged s'"
  by (auto simp: loop_body_def split: sum.splits dest: terminationChecks_break)

lemma for_loop_break:
  assumes "for_loop (loop_body nl elapsed p maxTime) js i0 s = Inr (i, c, s1)"
    and "c = BreakMaxTime \<or> c = BreakDgfZero"
  shows "\<not> converged s1"
  using assms
proof (induction js arbitrary: i0 s)
  case Nil
  then show ?case by auto
next
  case (Cons j js)
  from Cons.prems(1) obtain c' s' where b: "loop_body nl elapsed p maxTime j s = Inr (c', s')"
    by (auto split: sum.splits)
  show ?case
  proof (cases "c' = Continue")
    case True
    with Cons.prems b have "for_loop (loop_body nl elapsed p maxTime) js j s' = Inr (i, c, s1)"
      by simp
    from Cons.IH[OF this Cons.prems(2)] show ?thesis .
  next
    case False
    with Cons.prems b have "c = c'" "s1 = s'" by auto
    with b Cons.prems(2) show ?thesis using loop_body_break by blast
  qed
qed

lemma finalize_not_converged:
  assumes "\<not> converged s1"
  shows "\<exists>r. finalize p i s1 = Inr r \<and> \<not> converged r \<and> convI r = Val (- 9999) \<and> x_op r = PyNaN
     \<and> y_op r = PyNaN \<and> S_op r = PyNaN \<and> x_op_err r = PyNaN \<and> dgf r = PyNaN
     \<and> dgf_x r = PyNaN \<and> S_Ep r = PyNaN"
  using assms by (simp add: finalize_def Let_def)

text \<open>
  C4.  When the set-up and the loop of a run have ended: a loop ended by the time limit or
  by zero degrees of freedom leaves \<open>converged\<close> false; and whenever the loop ends with
  \<open>converged\<close> false (so also when the passes are used up without the criterion being
  met), the run returns with \<open>converged\<close> false, \<open>convI\<close> set to the sentinel -9999
  and \<open>x_op\<close>, \<open>y_op\<close>, \<open>S_op\<close>, \<open>x_op_err\<close>, \<open>dgf\<close>, \<open>dgf_x\<close> and
  \<open>S_Ep\<close> each set to the sentinel \<open>np.nan\<close>.
\<close>

theorem nonconvergence_sentinels:
  assumes loop: "retrieval_loop nl elapsed p s maxIter x_0 maxTime = Inr (i, c, s1)"
  shows "(c = BreakMaxTime \<or> c = BreakDgfZero \<longrightarrow> \<not> converged s1)
    \<and> (\<not> converged s1 \<longrightarrow>
         (\<exists>r. doRetrieval nl elapsed p s maxIter x_0 maxTime = Inr r \<and> \<not> converged r
            \<and> convI r = Val (- 9999) \<and> x_op r = PyNaN \<and> y_op r = PyNaN \<and> S_op r = PyNaN
            \<and> x_op_err r = PyNaN \<and> dgf r = PyNaN \<and> dgf_x r = PyNaN \<and> S_Ep r = PyNaN))"
proof (intro conjI impI)
  assume c: "c = BreakMaxTime \<or> c = BreakDgfZero"
  from loop obtain js i0 s0 where
    "for_loop (loop_body nl elapsed p maxTime) js i0 s0 = Inr (i, c, s1)"
    by (auto simp: retrieval_loop_def Let_def split: if_splits sum.splits)
  from for_loop_break[OF this c] show "\<not> converged s1" .
next
  assume "\<not> converged s1"
  from finalize_not_converged[OF this, of p i] loop
  show "\<exists>r. doRetrieval nl elapsed p s maxIter x_0 maxTime = Inr r \<and> \<not> converged r
            \<and> convI r = Val (- 9999) \<and> x_op r = PyNaN \<and> y_op r = PyNaN \<and> S_op r = PyNaN
            \<and> x_op_err r = PyNaN \<and> dgf r = PyNaN \<and> dgf_x r = PyNaN \<and> S_Ep r = PyNaN"
    by (simp add: doRetrieval_def)
qed

section \<open>Diagnostics before convergence\<close>

text \<open>
  C5, as amended.  Each of the four chi-square tests invoked on an engine that has not
  converged fails with an assertion error: it returns no value, sentinel or other.
\<close>

theorem chi_square_tests_assert_convergence:
  assumes "\<not> converged s"
  shows "chiSquareTestYOptimalObservation nl p s significance atol = Inl AssertionError
    \<and> chiSquareTestYObservationPrior nl p s significance atol = Inl AssertionError
    \<and> chiSquareTestYOptimalPrior nl p s significance atol = Inl AssertionError
    \<and> chiSquareTestXOptimalPrior nl p s significance atol = Inl AssertionError"
  using assms
  by (simp add: chiSquareTestYOptimalObservation_def chiSquareTestYObservationPrior_def
      chiSquareTestYOptimalPrior_def chiSquareTestXOptimalPrior_def)

theorem chi_square_tests_assert_convergence_witness:
  "\<not> converged new_engine
   \<and> chiSquareTestYOptimalObservation (numlib_1x1 (\<lambda>p n. NaN)) problem_1d new_engine (Fin (1 / 20)) (Fin (1 / 100000)) = Inl AssertionError
   \<and> chiSquareTestYObservationPrior (numlib_1x1 (\<lambda>p n. NaN)) problem_1d new_engine (Fin (1 / 20)) (Fin (1 / 100000)) = Inl AssertionError
   \<and> chiSquareTestYOptimalPrior (numlib_1x1 (\<lambda>p n. NaN)) problem_1d new_engine (Fin (1 / 20)) (Fin (1 / 100000)) = Inl AssertionError
   \<and> chiSquareTestXOptimalPrior (numlib_1x1 (\<lambda>p n. NaN)) problem_1d new_engine (Fin (1 / 20)) (Fin (1 / 100000)) = Inl AssertionError"
proof -
  have h: "\<not> converged new_engine" by (simp add: new_engine_def)
  from chi_square_tests_assert_convergence [OF h] h show ?thesis by blast
qed

text \<open>
  C5 as stated fails on an engine that has never run: the test of the optimal state
  against the observation raises an assertion error, and \<open>chiSquareTest\<close> raises an
  attribute error after printing its notice.
\<close>

theorem diagnostics_raise_before_convergence:
  "\<not> converged new_engine
   \<and> chiSquareTestYOptimalObservation (numlib_1x1 (\<lambda>p n. NaN)) problem_1d new_engine (Fin (1 / 20)) (Fin (1 / 100000)) = Inl AssertionError
   \<and> chiSquareTest (numlib_1x1 (\<lambda>p n. NaN)) problem_1d new_engine (Fin (1 / 20)) = Inl AttributeError"
  by (simp add: new_engine_def chiSquareTestYOptimalObservation_def chiSquareTest_def)

section \<open>The generalized chi-square\<close>

lemma filter_indices:
  "map (\<lambda>k. xs ! k) (filter (\<lambda>k. P (xs ! k)) [0..<length xs]) = filter P xs"
proof -
  have "filter P xs = filter P (map (\<lambda>k. xs ! k) [0..<length xs])" by (simp add: map_nth)
  also have "\<dots> = map (\<lambda>k. xs ! k) (filter (P \<circ> (\<lambda>k. xs ! k)) [0..<length xs])"
    by (rule filter_map)
  finally show ?thesis by (simp add: comp_def)
qed

lemma count_retained:
  "length (filter (\<lambda>b. b) (map P xs)) = length (filter (\<lambda>k. map P xs ! k) [0..<length (map P xs)])"
  using filter_indices[of "map P xs" "\<lambda>b. b"] by (metis length_map)

lemma filter_upt_cong:
  "filter (\<lambda>k. map P xs ! k) [0..<length (map P xs)] = filter (\<lambda>k. P (xs ! k)) [0..<length xs]"
  by (rule filter_cong) auto

lemma projected_nth:
  assumes "k < ncols V"
  shows "mat_vec (transpose_mat V) z ! k
          = fsum (map (\<lambda>j. fmul (entry V j k) (z ! j)) [0..<nrows V])"
  apply (simp add: mat_vec_def transpose_mat_def nrows_mk_mat ncols_mk_mat assms)
  apply (rule arg_cong[where f=fsum])
  apply (rule map_cong)
   apply simp
  apply (simp add: entry_mk_mat assms)
  done

lemma estimateChi2_value:
  assumes fin: "\<not> mat_any (\<lambda>v. isnan v \<or> isinf v) S"
    and eig: "scipy_eig nl S = (eigVals, eigVecsL)"
    and shape: "length eigVals = ncols eigVecsL"
  shows "\<exists>ns. estimateChi2 nl S z atol =
     Inr ((map (\<lambda>k. fdiv (fmul (fsum (map (\<lambda>j. fmul (entry eigVecsL j k) (z ! j)) [0..<nrows eigVecsL]))
                             (fsum (map (\<lambda>j. fmul (entry eigVecsL j k) (z ! j)) [0..<nrows eigVecsL])))
                       (eigVals ! k))
               (filter (\<lambda>k. fgt (fabs (eigVals ! k)) atol) [0..<length eigVals]),
           length (filter (\<lambda>k. fgt (fabs (eigVals ! k)) atol) [0..<length eigVals])), ns)"
proof -
  let ?P = "\<lambda>l. fgt (fabs l) atol"
  let ?ret = "filter (\<lambda>k. ?P (eigVals ! k)) [0..<length eigVals]"
  let ?zp = "mat_vec (transpose_mat eigVecsL) z"
  have dofs: "length (filter (\<lambda>b. b) (map ?P eigVals)) = length ?ret"
    using count_retained[of ?P eigVals] filter_upt_cong[of ?P eigVals] by simp
  have idx: "filter (\<lambda>k. map ?P eigVals ! k) [0..<length eigVals] = ?ret"
    using filter_upt_cong[of ?P eigVals] by simp
  have chi: "map (\<lambda>k. fdiv (fmul (?zp ! k) (?zp ! k)) (eigVals ! k)) ?ret
     = map (\<lambda>k. fdiv (fmul (fsum (map (\<lambda>j. fmul (entry eigVecsL j k) (z ! j)) [0..<nrows eigVecsL]))
                           (fsum (map (\<lambda>j. fmul (entry eigVecsL j k) (z ! j)) [0..<nrows eigVecsL])))
                    (eigVals ! k)) ?ret"
    using shape by (intro map_cong refl) (simp add: projected_nth)
  show ?thesis
    using fin eig dofs idx chi by (simp add: estimateChi2_def Let_def)
qed

lemma testChi2_value:
  assumes fin: "\<not> mat_any (\<lambda>v. isnan v \<or> isinf v) S"
    and eig: "scipy_eig nl S = (eigVals, eigVecsL)"
    and shape: "length eigVals = ncols eigVecsL"
  shows "\<exists>ns. testChi2 nl S z significance atol =
     Inr ((fsum (map (\<lambda>k. fdiv (fmul (fsum (map (\<lambda>j. fmul (entry eigVecsL j k) (z ! j)) [0..<nrows eigVecsL]))
                             (fsum (map (\<lambda>j. fmul (entry eigVecsL j k) (z ! j)) [0..<nrows eigVecsL])))
                       (eigVals ! k))
               (filter (\<lambda>k. fgt (fabs (eigVals ! k)) atol) [0..<length eigVals])),
           chi2_isf nl significance
             (length (filter (\<lambda>k. fgt (fabs (eigVals ! k)) atol) [0..<length eigVals]))), ns)"
  using estimateChi2_value[OF assms, of z atol] by (auto simp: testChi2_def)

text \<open>
  C8.  For a covariance \<open>S\<close> without NaN or infinite entry, whose eigen-decomposition by
  the library has as many eigenvalues as eigenvector columns: the computation projects
  \<open>z\<close> on each left eigenvector (column \<open>k\<close> of the eigenvector matrix), retains exactly
  the indices whose eigenvalue exceeds \<open>atol\<close> in absolute value, reports the number of
  retained indices as the degrees of freedom, and returns the squared projections divided
  by the eigenvalues, over the retained indices; the statistic of \<open>_testChi2\<close> is their
  sum and the critical value is the library's at that number of degrees of freedom.
\<close>

theorem generalized_chi_square:
  assumes fin: "\<not> mat_any (\<lambda>v. isnan v \<or> isinf v) S"
    and eig: "scipy_eig nl S = (eigVals, eigVecsL)"
    and shape: "length eigVals = ncols eigVecsL"
  shows "let projected = (\<lambda>k. fsum (map (\<lambda>j. fmul (entry eigVecsL j k) (z ! j)) [0..<nrows eigVecsL]));
             retained = filter (\<lambda>k. fgt (fabs (eigVals ! k)) atol) [0..<length eigVals];
             chi2s = map (\<lambda>k. fdiv (fmul (projected k) (projected k)) (eigVals ! k)) retained
         in (\<exists>ns. estimateChi2 nl S z atol = Inr ((chi2s, length retained), ns))
          \<and> (\<exists>ns. testChi2 nl S z significance atol
                  = Inr ((fsum chi2s, chi2_isf nl significance (length retained)), ns))"
  using estimateChi2_value [OF assms, of z atol] testChi2_value [OF assms, of z significance atol]
  by (simp add: Let_def)

section \<open>The test of the optimal state against the observation\<close>

lemma finite_float_Fin: "finite_float v \<longleftrightarrow> (\<exists>r. v = Fin r)"
  by (cases v) (simp_all add: finite_float_def isnan_def isinf_def)

lemma foldl_fadd_nonneg:
  "\<forall>v\<in>set xs. \<exists>r\<ge>0. v = Fin r \<Longrightarrow> 0 \<le> a \<Longrightarrow> \<exists>r\<ge>0. foldl fadd (Fin a) xs = Fin r"
proof (induction xs arbitrary: a)
  case Nil
  then show ?case by simp
next
  case (Cons x xs)
  from Cons.prems obtain r where r: "x = Fin r" "0 \<le> r" by auto
  have "\<exists>q\<ge>0. foldl fadd (Fin (a + r)) xs = Fin q"
    using Cons.prems r by (intro Cons.IH) auto
  then show ?case using r by simp
qed

lemma fsum_nonneg: "\<forall>v\<in>set xs. \<exists>r\<ge>0. v = Fin r \<Longrightarrow> \<exists>r\<ge>0. fsum xs = Fin r"
  unfolding fsum_def by (rule foldl_fadd_nonneg) auto

lemma foldl_fadd_fin:
  "\<forall>v\<in>set xs. \<exists>r. v = Fin r \<Longrightarrow> \<exists>r. foldl fadd (Fin a) xs = Fin r"
proof (induction xs arbitrary: a)
  case Nil
  then show ?case by simp
next
  case (Cons x xs)
  from Cons.prems obtain r where r: "x = Fin r" by auto
  have "\<exists>q. foldl fadd (Fin (a + r)) xs = Fin q"
    using Cons.prems by (intro Cons.IH) auto
  then show ?case using r by simp
qed

lemma fsum_fin: "\<forall>v\<in>set xs. \<exists>r. v = Fin r \<Longrightarrow> \<exists>r. fsum xs = Fin r"
  unfolding fsum_def by (rule foldl_fadd_fin)

lemma foldl_fadd_zero: "\<forall>v\<in>set xs. v = Fin 0 \<Longrightarrow> foldl fadd (Fin 0) xs = Fin 0"
  by (induction xs) auto

lemma fsum_zero: "\<forall>v\<in>set xs. v = Fin 0 \<Longrightarrow> fsum xs = Fin 0"
  unfolding fsum_def by (rule foldl_fadd_zero)

lemma projection_fin:
  assumes V: "\<forall>j<n. \<forall>k<n. finite_float (entry V j k)" and z: "\<forall>j<n. finite_float (z ! j)"
    and k: "k < n"
  shows "\<exists>r. fsum (map (\<lambda>j. fmul (entry V j k) (z ! j)) [0..<n]) = Fin r"
proof (rule fsum_fin, clarsimp)
  fix j assume j: "j < n"
  from V j k obtain a where a: "entry V j k = Fin a" by (auto simp: finite_float_Fin)
  from z j obtain b where b: "z ! j = Fin b" by (auto simp: finite_float_Fin)
  show "\<exists>r. fmul (entry V j k) (z ! j) = Fin r" using a b by simp
qed

lemma projection_zero:
  assumes V: "\<forall>j<n. \<forall>k<n. finite_float (entry V j k)" and z: "\<forall>j<n. z ! j = Fin 0"
    and k: "k < n"
  shows "fsum (map (\<lambda>j. fmul (entry V j k) (z ! j)) [0..<n]) = Fin 0"
proof (rule fsum_zero, clarsimp)
  fix j assume j: "j < n"
  from V j k obtain a where a: "entry V j k = Fin a" by (auto simp: finite_float_Fin)
  show "fmul (entry V j k) (z ! j) = Fin 0" using a z j by simp
qed

lemma retained_nonzero:
  assumes "fgt (fabs l) (Fin a)" "0 \<le> a"
  shows "l = PInf \<or> l = NInf \<or> (\<exists>r. l = Fin r \<and> r \<noteq> 0)"
  using assms by (cases l) (auto simp: fgt_def)

lemma term_zero:
  assumes "fgt (fabs l) (Fin a)" "0 \<le> a"
  shows "fdiv (fmul (Fin 0) (Fin 0)) l = Fin 0"
  using retained_nonzero[OF assms] by auto

lemma term_nonneg:
  assumes "fgt (fabs l) (Fin a)" "0 \<le> a" "flt (Fin 0) l"
  shows "\<exists>r\<ge>0. fdiv (fmul (Fin q) (Fin q)) l = Fin r"
  using assms by (cases l) (auto simp: fgt_def)

lemma testChi2_finite_input:
  "testChi2 nl S z significance atol = Inr r \<Longrightarrow> \<not> mat_any (\<lambda>v. isnan v \<or> isinf v) S"
  by (auto simp: testChi2_def estimateChi2_def split: if_splits)

lemma testChi2_zero:
  assumes t: "testChi2 nl S z significance (Fin a) = Inr ((chi2, crit), ns)" and a: "0 \<le> a"
    and eig: "scipy_eig nl S = (vals, V)"
    and sh: "length vals = n" "nrows V = n" "ncols V = n"
    and V: "\<forall>j<n. \<forall>k<n. finite_float (entry V j k)" and z: "\<forall>j<n. z ! j = Fin 0"
  shows "chi2 = Fin 0"
proof -
  have sh': "length vals = ncols V" using sh by simp
  from testChi2_value[OF testChi2_finite_input[OF t] eig sh', of z significance "Fin a"] t
  have c: "chi2 = fsum (map (\<lambda>k. fdiv (fmul (fsum (map (\<lambda>j. fmul (entry V j k) (z ! j)) [0..<nrows V]))
                             (fsum (map (\<lambda>j. fmul (entry V j k) (z ! j)) [0..<nrows V])))
                       (vals ! k))
               (filter (\<lambda>k. fgt (fabs (vals ! k)) (Fin a)) [0..<length vals]))"
    by auto
  show ?thesis unfolding c
  proof (rule fsum_zero, clarsimp)
    fix k assume k: "k < length vals" and r: "fgt (fabs (vals ! k)) (Fin a)"
    have "fsum (map (\<lambda>j. fmul (entry V j k) (z ! j)) [0..<nrows V]) = Fin 0"
      using projection_zero[OF V z, of k] k sh by simp
    then show "fdiv (fmul (fsum (map (\<lambda>j. fmul (entry V j k) (z ! j)) [0..<nrows V]))
                  (fsum (map (\<lambda>j. fmul (entry V j k) (z ! j)) [0..<nrows V]))) (vals ! k) = Fin 0"
      using term_zero[OF r a] by simp
  qed
qed

lemma testChi2_nonneg:
  assumes t: "testChi2 nl S z significance (Fin a) = Inr ((chi2, crit), ns)" and a: "0 \<le> a"
    and eig: "scipy_eig nl S = (vals, V)"
    and sh: "length vals = n" "nrows V = n" "ncols V = n"
    and V: "\<forall>j<n. \<forall>k<n. finite_float (entry V j k)" and z: "\<forall>j<n. finite_float (z ! j)"
    and pos: "\<forall>k<n. fgt (fabs (vals ! k)) (Fin a) \<longrightarrow> flt (Fin 0) (vals ! k)"
  shows "\<exists>c\<ge>0. chi2 = Fin c"
proof -
  have sh': "length vals = ncols V" using sh by simp
  from testChi2_value[OF testChi2_finite_input[OF t] eig sh', of z significance "Fin a"] t
  have c: "chi2 = fsum (map (\<lambda>k. fdiv (fmul (fsum (map (\<lambda>j. fmul (entry V j k) (z ! j)) [0..<nrows V]))
                             (fsum (map (\<lambda>j. fmul (entry V j k) (z ! j)) [0..<nrows V])))
                       (vals ! k))
               (filter (\<lambda>k. fgt (fabs (vals ! k)) (Fin a)) [0..<length vals]))"
    by auto
  have "\<exists>r\<ge>0. chi2 = Fin r" unfolding c
  proof (rule fsum_nonneg, clarsimp)
    fix k assume k: "k < length vals" and r: "fgt (fabs (vals ! k)) (Fin a)"
    from projection_fin[OF V z, of k] k sh obtain q where
      q: "fsum (map (\<lambda>j. fmul (entry V j k) (z ! j)) [0..<nrows V]) = Fin q" by auto
    from pos k sh r have "flt (Fin 0) (vals ! k)" by simp
    from term_nonneg[OF r a this, of q]
    show "\<exists>r\<ge>0. fdiv (fmul (fsum (map (\<lambda>j. fmul (entry V j k) (z ! j)) [0..<nrows V]))
                  (fsum (map (\<lambda>j. fmul (entry V j k) (z ! j)) [0..<nrows V]))) (vals ! k) = Fin r"
      using q by simp
  qed
  then show ?thesis by blast
qed

lemma finalize_converged:
  "finalize p i s1 = Inr r \<Longrightarrow> converged r \<Longrightarrow>
     convI r = Val (int i) \<and> x_op r = x_i r ! i \<and> y_op r = y_i r ! i
     \<and> S_op r = S_aposterior_i r ! i"
  by (auto simp: finalize_def Let_def split: if_splits sum.splits)

lemma doRetrieval_converged:
  assumes "doRetrieval nl elapsed p s0 maxIter x_0 maxTime = Inr r" "converged r"
  shows "\<exists>i. convI r = Val (int i) \<and> x_op r = x_i r ! i \<and> y_op r = y_i r ! i
     \<and> S_op r = S_aposterior_i r ! i"
  using assms by (auto simp: doRetrieval_def split: sum.splits dest: finalize_converged)

lemma list_at_nat:
  "list_at xs (Val (int i)) = Inr v \<Longrightarrow> v = xs ! i"
  by (auto simp: list_at_def py_index_def split: if_splits)

text \<open>
  C9, as amended.  For the object a run returned and a call of the test of the optimal
  state against the observation that returns, with a non-negative \<open>atol\<close>: the test
  statistic is that of \<open>_testChi2\<close> on the covariance
  \<open>S_Ep (K S_a K\<^sup>T + S_Ep)\<^sup>-\<^sup>1 S_Ep\<close> and the residual \<open>y_op - y_obs\<close>.  When the
  library's eigen-decomposition of that covariance has the size of the measurement vector
  and finite eigenvectors, and the observation is finite: the statistic is exactly 0 when
  \<open>y_op\<close> equals \<open>y_obs\<close>; and it is a number greater than or equal to 0 when
  \<open>y_op\<close> is finite and every retained eigenvalue (absolute value above \<open>atol\<close>) is
  positive.
\<close>

theorem chi_square_optimal_observation:
  assumes run: "doRetrieval nl elapsed p s0 maxIter x_0 maxTime = Inr s"
    and test: "chiSquareTestYOptimalObservation nl p s significance (Fin a) = Inr ((chi2, crit), s')"
    and a: "0 \<le> a"
  shows "\<exists>S_deyd y_opt eigVals eigVecsL.
       y_op s = Val y_opt \<and> scipy_eig nl S_deyd = (eigVals, eigVecsL)
     \<and> (\<exists>Sep K Kinv w. S_Ep s = Val Sep \<and> list_at (K_i s) (convI s) = Inr (Val K)
          \<and> invertMatrix nl (mat_add (dot (dot K (S_a p)) (transpose_mat K)) Sep) True = Inr (Kinv, w)
          \<and> S_deyd = dot (dot Sep Kinv) Sep)
     \<and> (\<exists>ns. testChi2 nl S_deyd (vec_sub y_opt (y_obs p)) significance (Fin a)
               = Inr ((chi2, crit), ns))
     \<and> (length y_opt = length (y_obs p) \<and> length eigVals = length (y_obs p)
         \<and> nrows eigVecsL = length (y_obs p) \<and> ncols eigVecsL = length (y_obs p)
         \<and> (\<forall>j<length (y_obs p). \<forall>k<length (y_obs p). finite_float (entry eigVecsL j k))
         \<and> (\<forall>v\<in>set (y_obs p). finite_float v)
        \<longrightarrow> (y_opt = y_obs p \<longrightarrow> chi2 = Fin 0)
          \<and> ((\<forall>v\<in>set y_opt. finite_float v)
              \<and> (\<forall>k<length (y_obs p). fgt (fabs (eigVals ! k)) (Fin a) \<longrightarrow> flt (Fin 0) (eigVals ! k))
             \<longrightarrow> (\<exists>c\<ge>0. chi2 = Fin c)))"
proof -
  from test have conv: "converged s"
    by (auto simp: chiSquareTestYOptimalObservation_def split: if_splits)
  from test conv obtain Sep K Kinv w yc y_conv ns where
    Sep: "S_Ep s = Val Sep" and K: "list_at (K_i s) (convI s) = Inr (Val K)"
    and inv: "invertMatrix nl (mat_add (dot (dot K (S_a p)) (transpose_mat K)) Sep) True = Inr (Kinv, w)"
    and yc: "list_at (y_i s) (convI s) = Inr yc" and yv: "yc = Val y_conv"
    and t: "testChi2 nl (dot (dot Sep Kinv) Sep) (vec_sub y_conv (y_obs p)) significance (Fin a)
              = Inr ((chi2, crit), ns)"
    by (auto simp: chiSquareTestYOptimalObservation_def Let_def attr_values_def val_def
        split: if_splits sum.splits attr.splits prod.splits)
  from doRetrieval_converged[OF run conv] obtain i where
    i: "convI s = Val (int i)" and yop: "y_op s = y_i s ! i" by auto
  from yc i have "yc = y_i s ! i" by (simp add: list_at_nat)
  with yop yv have y: "y_op s = Val y_conv" by simp
  let ?S = "dot (dot Sep Kinv) Sep"
  let ?n = "length (y_obs p)"
  let ?z = "vec_sub y_conv (y_obs p)"
  obtain vals V where eig: "scipy_eig nl ?S = (vals, V)" by (cases "scipy_eig nl ?S")
  have main: "(y_conv = y_obs p \<longrightarrow> chi2 = Fin 0)
          \<and> ((\<forall>v\<in>set y_conv. finite_float v)
              \<and> (\<forall>k<?n. fgt (fabs (vals ! k)) (Fin a) \<longrightarrow> flt (Fin 0) (vals ! k))
             \<longrightarrow> (\<exists>c\<ge>0. chi2 = Fin c))"
    if len: "length y_conv = ?n" and sh: "length vals = ?n" "nrows V = ?n" "ncols V = ?n"
      and V: "\<forall>j<?n. \<forall>k<?n. finite_float (entry V j k)"
      and obs: "\<forall>v\<in>set (y_obs p). finite_float v"
  proof (intro conjI impI)
    assume eq: "y_conv = y_obs p"
    have "\<forall>j<?n. ?z ! j = Fin 0"
    proof (intro allI impI)
      fix j assume j: "j < ?n"
      with obs obtain r where "y_obs p ! j = Fin r" by (metis finite_float_Fin nth_mem)
      then show "?z ! j = Fin 0" using j eq by (simp add: vec_sub_def fsub_def)
    qed
    from testChi2_zero[OF t a eig sh V this] show "chi2 = Fin 0" .
  next
    assume h: "(\<forall>v\<in>set y_conv. finite_float v)
              \<and> (\<forall>k<?n. fgt (fabs (vals ! k)) (Fin a) \<longrightarrow> flt (Fin 0) (vals ! k))"
    have "\<forall>j<?n. finite_float (?z ! j)"
    proof (intro allI impI)
      fix j assume j: "j < ?n"
      with obs obtain r where r: "y_obs p ! j = Fin r" by (metis finite_float_Fin nth_mem)
      from h j len obtain q where q: "y_conv ! j = Fin q" by (metis finite_float_Fin nth_mem)
      show "finite_float (?z ! j)" using j len r q
        by (simp add: vec_sub_def fsub_def finite_float_Fin)
    qed
    from testChi2_nonneg[OF t a eig sh V this] h show "\<exists>c\<ge>0. chi2 = Fin c" by blast
  qed
  show ?thesis
    apply (rule exI[of _ ?S], rule exI[of _ y_conv], rule exI[of _ vals], rule exI[of _ V])
    using y eig Sep K inv t main by blast
qed

section \<open>Instances on the one-dimensional problem\<close>

theorem convergence_check_witness:
  "\<not> converged start_1d \<and> \<not> fgt (Fin 0) (Fin 10000000)
   \<and> loop_body (numlib_1x1 (\<lambda>p n. NaN)) (\<lambda>i. Fin 0) problem_1d (Fin 10000000) 0 start_1d
        = Inr (Continue, pass0_1d)
   \<and> \<not> converged pass0_1d
   \<and> loop_body (numlib_1x1 (\<lambda>p n. NaN)) (\<lambda>i. Fin 0) problem_1d (Fin 10000000) (Suc 0) pass0_1d
        = Inr (Continue, pass1_1d)
   \<and> converged pass1_1d
   \<and> flt (fabs (d_i2 pass1_1d ! Suc 0)) (fdiv (Fin (real (y_n problem_1d))) (convergenceFactor problem_1d))
   \<and> feq (gam_i pass1_1d ! Suc 0) (Fin 1) \<and> fne (d_i2 pass1_1d ! Suc 0) (Fin 0)"
proof -
  have n0: "\<not> converged start_1d" by (simp add: start_1d_def new_engine_def)
  have n1: "\<not> converged pass0_1d" by (simp add: pass0_1d_def start_1d_def new_engine_def)
  have t: "\<not> fgt (Fin 0) (Fin 10000000)" by (simp add: fgt_def)
  have c: "converged pass1_1d" by (simp add: pass1_1d_def)
  from convergence_check [OF loop_body_1d_0 n0 t] convergence_check [OF loop_body_1d_1 n1 t]
    n0 n1 t c loop_body_1d_0 loop_body_1d_1
  show ?thesis by simp
qed

theorem nonconvergence_sentinels_witness:
  "(\<exists>s1. retrieval_loop (numlib_1x1 (\<lambda>p n. NaN)) (\<lambda>i. Fin 1) problem_1d new_engine 1 None (Fin 0)
           = Inr (0, BreakMaxTime, s1) \<and> \<not> converged s1)
   \<and> (\<exists>r. doRetrieval (numlib_1x1 (\<lambda>p n. NaN)) (\<lambda>i. Fin 1) problem_1d new_engine 1 None (Fin 0) = Inr r
          \<and> \<not> converged r \<and> convI r = Val (- 9999) \<and> x_op r = PyNaN \<and> y_op r = PyNaN
          \<and> S_op r = PyNaN \<and> x_op_err r = PyNaN \<and> dgf r = PyNaN \<and> dgf_x r = PyNaN
          \<and> S_Ep r = PyNaN)
   \<and> (\<exists>s1. retrieval_loop (numlib_1x1 (\<lambda>p n. NaN)) (\<lambda>i. Fin 0) problem_1d new_engine 1 None (Fin 10000000)
           = Inr (0, Continue, s1) \<and> \<not> converged s1)
   \<and> (\<exists>r. doRetrieval (numlib_1x1 (\<lambda>p n. NaN)) (\<lambda>i. Fin 0) problem_1d new_engine 1 None (Fin 10000000) = Inr r
          \<and> \<not> converged r \<and> convI r = Val (- 9999) \<and> x_op r = PyNaN \<and> y_op r = PyNaN
          \<and> S_op r = PyNaN \<and> x_op_err r = PyNaN \<and> dgf r = PyNaN \<and> dgf_x r = PyNaN
          \<and> S_Ep r = PyNaN)"
  using nonconvergence_sentinels [OF loop_1d_timeout] nonconvergence_sentinels [OF loop_1d_1]
    loop_1d_timeout [of "\<lambda>p n. NaN"] loop_1d_1 [of "\<lambda>p n. NaN"]
  by (simp add: new_engine_def)

theorem boundRepair_resets_to_prior_witness:
  "length [Fin (- 1), Fin 5]
     = length (x_vars (problem_1d\<lparr>x_vars := [''a'', ''b''], x_a := [Fin 1, Fin 2],
                                  x_lowerLimit := [''a'' \<mapsto> Fin 0]\<rparr>))
   \<and> fst (boundRepair (problem_1d\<lparr>x_vars := [''a'', ''b''], x_a := [Fin 1, Fin 2],
                                    x_lowerLimit := [''a'' \<mapsto> Fin 0]\<rparr>) 0 [Fin (- 1), Fin 5]) ! 0 = Fin 1
   \<and> fst (boundRepair (problem_1d\<lparr>x_vars := [''a'', ''b''], x_a := [Fin 1, Fin 2],
                                    x_lowerLimit := [''a'' \<mapsto> Fin 0]\<rparr>) 0 [Fin (- 1), Fin 5]) ! 1 = Fin 5
   \<and> boundRepair (problem_1d\<lparr>x_vars := [''a'', ''b''], x_a := [Fin 1, Fin 2],
                               x_lowerLimit := [''a'' \<mapsto> Fin 0]\<rparr>) 0 [Fin 3, Fin 5]
       = ([Fin 3, Fin 5], [])
   \<and> iteration (numlib_1x1 (\<lambda>p n. NaN)) problem_1d 0 start_1d = Inr pass0_1d
   \<and> Suc 0 < length (x_i start_1d)
   \<and> (\<exists>x_next. x_i pass0_1d ! Suc 0 = Val (fst (boundRepair problem_1d 0 x_next))
        \<and> printed pass0_1d = printed start_1d @ snd (boundRepair problem_1d 0 x_next))"
proof -
  let ?p = "problem_1d\<lparr>x_vars := [''a'', ''b''], x_a := [Fin 1, Fin 2],
                        x_lowerLimit := [''a'' \<mapsto> Fin 0]\<rparr>"
  have l1: "length [Fin (- 1), Fin 5] = length (x_vars ?p)"
    and l2: "length [Fin 3, Fin 5] = length (x_vars ?p)"
    and l3: "length [Fin 0] = length (x_vars problem_1d)" by (simp_all add: problem_1d_def)
  have it: "iteration (numlib_1x1 (\<lambda>p n. NaN)) problem_1d 0 start_1d = Inr pass0_1d"
    by (simp add: iteration_1d_0 start_1d_def pass0_1d_def new_engine_def)
  have len: "Suc 0 < length (x_i start_1d)" by (simp add: start_1d_def new_engine_def)
  note T1 = boundRepair_resets_to_prior [OF l1, of 0]
  note T2 = boundRepair_resets_to_prior [OF l2, of 0]
  note T3 = boundRepair_resets_to_prior [OF l3, of 0]
  have a0: "fst (boundRepair ?p 0 [Fin (- 1), Fin 5]) ! 0 = Fin 1"
    using T1 [THEN conjunct2, THEN conjunct1, THEN spec, of 0] by (simp add: problem_1d_def)
  have a1: "fst (boundRepair ?p 0 [Fin (- 1), Fin 5]) ! 1 = Fin 5"
    using T1 [THEN conjunct2, THEN conjunct1, THEN spec, of 1]
    by (simp add: problem_1d_def isnan_def)
  have b: "boundRepair ?p 0 [Fin 3, Fin 5] = ([Fin 3, Fin 5], [])"
    using T2 [THEN conjunct2, THEN conjunct2, THEN conjunct1]
    by (simp add: problem_1d_def isnan_def less_Suc_eq)
  have c: "\<exists>x_next. x_i pass0_1d ! Suc 0 = Val (fst (boundRepair problem_1d 0 x_next))
        \<and> printed pass0_1d = printed start_1d @ snd (boundRepair problem_1d 0 x_next)"
    using T3 [THEN conjunct2, THEN conjunct2, THEN conjunct2, THEN spec, THEN spec, THEN spec,
        THEN mp, OF conjI [OF it len]] .
  from l1 a0 a1 b it len c show ?thesis by blast
qed

theorem generalized_chi_square_witness:
  "\<not> mat_any (\<lambda>v. isnan v \<or> isinf v) (Mat 2 2 [[Fin 4, Fin 0], [Fin 0, Fin 0]])
   \<and> length [Fin 4, Fin 0] = ncols (Mat 2 2 [[Fin 1, Fin 0], [Fin 0, Fin 1]])
   \<and> (\<exists>ns. estimateChi2
          (numlib_1x1 (\<lambda>p n. NaN)\<lparr>scipy_eig := \<lambda>S. ([Fin 4, Fin 0], Mat 2 2 [[Fin 1, Fin 0], [Fin 0, Fin 1]])\<rparr>)
          (Mat 2 2 [[Fin 4, Fin 0], [Fin 0, Fin 0]]) [Fin 2, Fin 3] (Fin (1 / 100000))
        = Inr (([Fin 1], 1), ns))
   \<and> (\<exists>ns. testChi2
          (numlib_1x1 (\<lambda>p n. NaN)\<lparr>scipy_eig := \<lambda>S. ([Fin 4, Fin 0], Mat 2 2 [[Fin 1, Fin 0], [Fin 0, Fin 1]])\<rparr>)
          (Mat 2 2 [[Fin 4, Fin 0], [Fin 0, Fin 0]]) [Fin 2, Fin 3] (Fin (1 / 20)) (Fin (1 / 100000))
        = Inr ((Fin 1, NaN), ns))"
proof -
  let ?nl = "numlib_1x1 (\<lambda>p n. NaN)\<lparr>scipy_eig := \<lambda>S. ([Fin 4, Fin 0], Mat 2 2 [[Fin 1, Fin 0], [Fin 0, Fin 1]])\<rparr>"
  let ?S = "Mat 2 2 [[Fin 4, Fin 0], [Fin 0, Fin 0]]"
  have f: "\<not> mat_any (\<lambda>v. isnan v \<or> isinf v) ?S"
    by (simp add: mat_any_def isnan_def isinf_def)
  have e: "scipy_eig ?nl ?S = ([Fin 4, Fin 0], Mat 2 2 [[Fin 1, Fin 0], [Fin 0, Fin 1]])"
    by simp
  have l: "length [Fin 4, Fin 0] = ncols (Mat 2 2 [[Fin 1, Fin 0], [Fin 0, Fin 1]])" by simp
  from generalized_chi_square [OF f e l, of "[Fin 2, Fin 3]" "Fin (1 / 100000)" "Fin (1 / 20)"] f l
  show ?thesis
    by (simp add: Let_def eval_nat_numeral entry_def fsum_def fgt_def numlib_1x1_def)
qed

theorem chi_square_optimal_observation_witness:
  "doRetrieval (numlib_1x1 (\<lambda>p n. NaN)) (\<lambda>i. Fin 0) problem_fit new_engine 3 None (Fin 10000000)
     = Inr result_fit_3
   \<and> chiSquareTestYOptimalObservation (numlib_1x1 (\<lambda>p n. NaN)) problem_fit result_fit_3
        (Fin (1 / 20)) (Fin (1 / 100000)) = Inr ((Fin 0, NaN), result_fit_3)
   \<and> (0::real) \<le> 1 / 100000
   \<and> y_op result_fit_3 = Val (y_obs problem_fit)
   \<and> doRetrieval (numlib_1x1 (\<lambda>p n. NaN)) (\<lambda>i. Fin 0) problem_1d new_engine 3 None (Fin 10000000)
     = Inr result_1d_3
   \<and> chiSquareTestYOptimalObservation (numlib_1x1 (\<lambda>p n. NaN)) problem_1d result_1d_3
        (Fin (1 / 20)) (Fin (1 / 100000)) = Inr ((Fin (11849 / 4096), NaN), result_1d_3)
   \<and> y_op result_1d_3 = Val [Fin (15 / 16)]
   \<and> scipy_eig (numlib_1x1 (\<lambda>p n. NaN)) (Mat 1 1 [[Fin (16 / 41)]])
        = ([Fin (16 / 41)], Mat 1 1 [[Fin 1]])
   \<and> flt (Fin 0) (Fin (16 / 41))
   \<and> (\<exists>c\<ge>0. Fin (11849 / 4096) = Fin c)"
proof -
  let ?nl = "numlib_1x1 (\<lambda>p n. NaN)"
  have a: "(0::real) \<le> 1 / 100000" by simp
  have r1: "doRetrieval ?nl (\<lambda>i. Fin 0) problem_fit new_engine 3 None (Fin 10000000) = Inr result_fit_3"
    by (rule run_fit_3)
  have t1: "chiSquareTestYOptimalObservation ?nl problem_fit result_fit_3 (Fin (1 / 20))
        (Fin (1 / 100000)) = Inr ((Fin 0, NaN), result_fit_3)"
    by (simp add: test_fit_3)
  have r2: "doRetrieval ?nl (\<lambda>i. Fin 0) problem_1d new_engine 3 None (Fin 10000000) = Inr result_1d_3"
    by (rule run_1d_3)
  have t2: "chiSquareTestYOptimalObservation ?nl problem_1d result_1d_3 (Fin (1 / 20))
        (Fin (1 / 100000)) = Inr ((Fin (11849 / 4096), NaN), result_1d_3)"
    by (simp add: test_1d_3)
  have y1: "y_op result_fit_3 = Val (y_obs problem_fit)"
    by (simp add: result_fit_3_def result_1d_3_def problem_fit_fields)
  have y2: "y_op result_1d_3 = Val [Fin (15 / 16)]" by (simp add: result_1d_3_def)
  have e: "scipy_eig ?nl (Mat 1 1 [[Fin (16 / 41)]]) = ([Fin (16 / 41)], Mat 1 1 [[Fin 1]])"
    by (simp add: numlib_1x1_def eig_1x1_def entry_def)
  have zero: "Fin 0 = Fin 0"
  proof -
    from chi_square_optimal_observation [OF r1 t1 a] obtain S yo vals V where
      y: "y_op result_fit_3 = Val yo" and eig: "scipy_eig ?nl S = (vals, V)"
      and imp: "length yo = length (y_obs problem_fit) \<and> length vals = length (y_obs problem_fit)
         \<and> nrows V = length (y_obs problem_fit) \<and> ncols V = length (y_obs problem_fit)
         \<and> (\<forall>j<length (y_obs problem_fit). \<forall>k<length (y_obs problem_fit). finite_float (entry V j k))
         \<and> (\<forall>v\<in>set (y_obs problem_fit). finite_float v)
        \<longrightarrow> (yo = y_obs problem_fit \<longrightarrow> Fin 0 = Fin 0)
          \<and> ((\<forall>v\<in>set yo. finite_float v)
              \<and> (\<forall>k<length (y_obs problem_fit). fgt (fabs (vals ! k)) (Fin (1 / 100000)) \<longrightarrow> flt (Fin 0) (vals ! k))
             \<longrightarrow> (\<exists>c\<ge>0. Fin 0 = Fin c))"
      by blast
    have yo: "yo = y_obs problem_fit" using y y1 by simp
    have V: "vals = [entry S 0 0]" "V = Mat 1 1 [[Fin 1]]"
      using eig by (simp_all add: numlib_1x1_def eig_1x1_def)
    from imp show ?thesis unfolding yo V
      by (simp add: problem_fit_fields finite_float_def isnan_def isinf_def entry_def)
  qed
  have nonneg: "\<exists>c\<ge>0. Fin (11849 / 4096) = Fin c"
  proof -
    from chi_square_optimal_observation [OF r2 t2 a] obtain S yo vals V Sep K Kinv w where
      y: "y_op result_1d_3 = Val yo" and eig: "scipy_eig ?nl S = (vals, V)"
      and Sep: "S_Ep result_1d_3 = Val Sep"
      and K: "list_at (K_i result_1d_3) (convI result_1d_3) = Inr (Val K)"
      and inv: "invertMatrix ?nl (mat_add (dot (dot K (S_a problem_1d)) (transpose_mat K)) Sep) True
                  = Inr (Kinv, w)"
      and S: "S = dot (dot Sep Kinv) Sep"
      and imp: "length yo = length (y_obs problem_1d) \<and> length vals = length (y_obs problem_1d)
         \<and> nrows V = length (y_obs problem_1d) \<and> ncols V = length (y_obs problem_1d)
         \<and> (\<forall>j<length (y_obs problem_1d). \<forall>k<length (y_obs problem_1d). finite_float (entry V j k))
         \<and> (\<forall>v\<in>set (y_obs problem_1d). finite_float v)
        \<longrightarrow> (yo = y_obs problem_1d \<longrightarrow> Fin (11849 / 4096) = Fin 0)
          \<and> ((\<forall>v\<in>set yo. finite_float v)
              \<and> (\<forall>k<length (y_obs problem_1d). fgt (fabs (vals ! k)) (Fin (1 / 100000)) \<longrightarrow> flt (Fin 0) (vals ! k))
             \<longrightarrow> (\<exists>c\<ge>0. Fin (11849 / 4096) = Fin c))"
      by blast
    have yo: "yo = [Fin (15 / 16)]" using y y2 by simp
    have Sep': "Sep = Mat 1 1 [[Fin 1]]" using Sep by (simp add: result_1d_3_def)
    have K': "K = Mat 1 1 [[Fin (5 / 4)]]"
      using K by (simp add: result_1d_3_def list_at_def py_index_def)
    have Kinv': "Kinv = Mat 1 1 [[Fin (16 / 41)]]"
      using inv unfolding K' Sep' by (simp add: problem_1d_fields lib_defs float_defs mat_defs)
    have S': "S = Mat 1 1 [[Fin (16 / 41)]]"
      unfolding S Sep' Kinv' by (simp add: mat_defs)
    have V: "vals = [Fin (16 / 41)]" "V = Mat 1 1 [[Fin 1]]"
      using eig unfolding S' by (simp_all add: numlib_1x1_def eig_1x1_def entry_def)
    from imp show ?thesis unfolding yo V
      by (simp add: problem_1d_fields finite_float_def isnan_def isinf_def entry_def fgt_def)
  qed
  have p: "flt (Fin 0) (Fin (16 / 41))" by simp
  from r1 t1 a y1 r2 t2 y2 e p nonneg zero show ?thesis by blast
qed

text \<open>
  C9 as stated fails on the problem whose observation variance is -2: the run with
  \<open>maxIter = 3\<close> converges, and the test returns the statistic -81/64.  The test
  covariance is \<open>[[-4]]\<close>; its eigenvalue -4 is retained, its absolute value being above
  \<open>atol\<close>.
\<close>

theorem negative_chi_square:
  "doRetrieval (numlib_1x1 (\<lambda>p n. NaN)) (\<lambda>i. Fin 0) problem_neg new_engine 3 None (Fin 10000000)
     = Inr result_neg_3
   \<and> converged result_neg_3
   \<and> chiSquareTestYOptimalObservation (numlib_1x1 (\<lambda>p n. NaN)) problem_neg result_neg_3
        (Fin (1 / 20)) (Fin (1 / 100000)) = Inr ((Fin (- (81 / 64)), NaN), result_neg_3)
   \<and> flt (Fin (- (81 / 64))) (Fin 0)"
proof -
  have c: "converged result_neg_3" by (simp add: result_neg_3_def result_1d_3_def)
  show ?thesis using c by (simp add: run_neg_3 test_neg_3)
qed


section \<open>The confirmation pass\<close>

lemma iteration_inv:
  assumes "iteration nl p i s = Inr s'"
  shows "\<exists>xi yi Kx Kb x_next y_next dg H A d S ws.
    x_i s ! i = Val xi \<and> y_i s ! i = Val yi \<and> getJacobian p (xi @ b_p p) yi = Inr (Kx, Kb)
    \<and> s' = s\<lparr>K_i := (K_i s)[i := Val Kx], K_b_i := (K_b_i s)[i := Val Kb],
             x_i := (x_i s)[Suc i := Val (fst (boundRepair p i x_next))],
             y_i := (y_i s)[Suc i := Val y_next],
             dgf_i := (dgf_i s)[i := dg], H_i := (H_i s)[i := H],
             A_i := (A_i s)[i := Val A], d_i2 := (d_i2 s)[i := d],
             S_aposterior_i := (S_aposterior_i s)[i := Val S],
             printed := printed s @ snd (boundRepair p i x_next),
             warned := warned s @ ws\<rparr>"
  using assms
  apply (clarsimp simp: iteration_def Let_def val_def split: sum.splits prod.splits attr.splits)
  apply (metis fst_conv snd_conv)
  done

lemma pass_step:
  assumes body: "loop_body nl elapsed p maxTime k s = Inr (c, s')"
    and ent: "entering p n k s" and k: "k < n"
  shows "(c = BreakDone \<and> confirmed p n k s')
       \<or> (c = Continue \<and> entering p n (Suc k) s' \<and> (converged s' \<longrightarrow> 1 \<le> k \<and> criterion p k s'))
       \<or> ((c = BreakMaxTime \<or> c = BreakDgfZero) \<and> \<not> converged s')"
proof -
  from body obtain sm where it: "iteration nl p k s = Inr sm"
    and tc: "terminationChecks elapsed p maxTime k sm = Inr (c, s')"
    by (auto simp: loop_body_def split: sum.splits)
  from iteration_inv[OF it] obtain xi yi Kx Kb x_next y_next dg H A d S ws where
    xi: "x_i s ! k = Val xi" and yi: "y_i s ! k = Val yi"
    and jac: "getJacobian p (xi @ b_p p) yi = Inr (Kx, Kb)"
    and sm: "sm = s\<lparr>K_i := (K_i s)[k := Val Kx], K_b_i := (K_b_i s)[k := Val Kb],
             x_i := (x_i s)[Suc k := Val (fst (boundRepair p k x_next))],
             y_i := (y_i s)[Suc k := Val y_next],
             dgf_i := (dgf_i s)[k := dg], H_i := (H_i s)[k := H],
             A_i := (A_i s)[k := Val A], d_i2 := (d_i2 s)[k := d],
             S_aposterior_i := (S_aposterior_i s)[k := Val S],
             printed := printed s @ snd (boundRepair p k x_next),
             warned := warned s @ ws\<rparr>"
    by blast
  from ent have al: "allocated n s" by (simp add: entering_def)
  have alm: "allocated n sm" using al by (simp add: sm allocated_def)
  have next_state: "x_i sm ! Suc k = Val (fst (boundRepair p k x_next))"
    using al k by (simp add: sm allocated_def)
  show ?thesis
  proof (cases "converged s")
    case True
    with ent have k2: "2 \<le> k" and cr: "criterion p (k - 1) s" by (simp_all add: entering_def)
    from ent k2 obtain xp where xp: "x_i s ! k = Val (fst (boundRepair p (k - 1) xp))"
      by (auto simp: entering_def)
    from True tc have c: "c = BreakDone" and s': "s' = sm\<lparr>printed := printed sm @ [Done k]\<rparr>"
      by (auto simp: terminationChecks_def sm)
    have "criterion p (k - 1) s'" using cr k2 by (simp add: s' sm criterion_def)
    moreover have "allocated n s'" using alm by (simp add: s' allocated_def)
    moreover have "x_i s' ! k = Val xi" "y_i s' ! k = Val yi" using xi yi by (simp_all add: s' sm)
    moreover have "K_i s' ! k = Val Kx" "K_b_i s' ! k = Val Kb" "S_aposterior_i s' ! k = Val S"
      "A_i s' ! k = Val A"
      using al k by (simp_all add: s' sm allocated_def)
    moreover have "xi = fst (boundRepair p (k - 1) xp)" using xi xp by simp
    moreover have "converged s'" using True by (simp add: s' sm)
    ultimately have "confirmed p n k s'"
      unfolding confirmed_def using k2 k jac by blast
    with c show ?thesis by simp
  next
    case False
    then have ncm: "\<not> converged sm" by (simp add: sm)
    show ?thesis
    proof (cases "c = BreakMaxTime \<or> c = BreakDgfZero")
      case True
      with tc show ?thesis using terminationChecks_break by blast
    next
      case nb: False
      from tc ncm nb have c: "c = Continue"
        by (auto simp: terminationChecks_def split: if_splits)
      from tc ncm c have lists: "x_i s' = x_i sm" "d_i2 s' = d_i2 sm" "gam_i s' = gam_i sm"
        "allocated n s' = allocated n sm"
        by (auto simp: terminationChecks_def allocated_def split: if_splits)
      from tc ncm c have cv: "converged s' \<longrightarrow> 1 \<le> k \<and> criterion p k sm"
        by (auto simp: terminationChecks_def split: if_splits)
      have cr: "criterion p k s' = criterion p k sm" using lists by (simp add: criterion_def)
      have "entering p n (Suc k) s'"
        unfolding entering_def using lists alm cv cr next_state by auto
      with c cv cr show ?thesis by simp
    qed
  qed
qed

lemma for_loop_invariant:
  assumes "for_loop (loop_body nl elapsed p maxTime) [k..<n] i0 s = Inr (i, c, s1)"
    and "entering p n k s"
  shows "(c = BreakDone \<longrightarrow> confirmed p n i s1)
       \<and> (c = Continue \<longrightarrow> allocated n s1 \<and> (k < n \<longrightarrow> i = n - 1)
             \<and> (converged s1 \<longrightarrow> (k < n \<and> 1 \<le> i \<and> criterion p i s1)
                                 \<or> (n \<le> k \<and> 2 \<le> k \<and> criterion p (k - 1) s1)))"
  using assms
proof (induction "n - k" arbitrary: k i0 s)
  case 0
  then have "[k..<n] = []" by simp
  with "0.prems" show ?case by (auto simp: entering_def)
next
  case (Suc m)
  then have k: "k < n" by simp
  then have l: "[k..<n] = k # [Suc k..<n]" by (simp add: upt_conv_Cons)
  from Suc.prems(1) l obtain c' s' where
    b: "loop_body nl elapsed p maxTime k s = Inr (c', s')"
    by (auto split: sum.splits)
  from pass_step[OF b Suc.prems(2) k] consider
    (fin) "c' = BreakDone" "confirmed p n k s'"
    | (cont) "c' = Continue" "entering p n (Suc k) s'" "converged s' \<longrightarrow> 1 \<le> k \<and> criterion p k s'"
    | (stop) "c' = BreakMaxTime \<or> c' = BreakDgfZero" by blast
  then show ?case
  proof cases
    case fin
    with Suc.prems(1) l b have "i = k" "c = BreakDone" "s1 = s'" by auto
    with fin show ?thesis by simp
  next
    case cont
    with Suc.prems(1) l b have r: "for_loop (loop_body nl elapsed p maxTime) [Suc k..<n] k s' = Inr (i, c, s1)"
      by simp
    have m: "m = n - Suc k" using Suc.hyps(2) by simp
    from Suc.hyps(1)[OF m r cont(2)]
    have ih: "(c = BreakDone \<longrightarrow> confirmed p n i s1)
       \<and> (c = Continue \<longrightarrow> allocated n s1 \<and> (Suc k < n \<longrightarrow> i = n - 1)
             \<and> (converged s1 \<longrightarrow> (Suc k < n \<and> 1 \<le> i \<and> criterion p i s1)
                                 \<or> (n \<le> Suc k \<and> 2 \<le> Suc k \<and> criterion p (Suc k - 1) s1)))" .
    show ?thesis
    proof (cases "Suc k < n")
      case True
      with ih k show ?thesis by auto
    next
      case False
      then have e: "[Suc k..<n] = []" by simp
      with r have "i = k" "c = Continue" "s1 = s'" by auto
      with ih cont k False show ?thesis by auto
    qed
  next
    case stop
    with Suc.prems(1) l b have "c = c'" by auto
    with stop show ?thesis by auto
  qed
qed


lemma initial_gam_length: "initial_gam p n = Inr g \<Longrightarrow> length g = n"
  by (auto simp: initial_gam_def split: option.splits if_splits)

lemma retrieval_loop_setup:
  assumes "retrieval_loop nl elapsed p s maxIter x_0 maxTime = Inr (i, c, s1)"
  shows "0 < maxIter \<and> (\<exists>s0. for_loop (loop_body nl elapsed p maxTime) [0..<nat maxIter] 0 s0
            = Inr (i, c, s1) \<and> entering p (nat maxIter) 0 s0)"
proof -
  from assms have m: "0 < maxIter" by (auto simp: retrieval_loop_def split: if_splits)
  from assms m obtain Sa_inv w gam where
    g: "initial_gam p (nat maxIter) = Inr gam"
    and l: "for_loop (loop_body nl elapsed p maxTime) [0..<nat maxIter] 0
       (s\<lparr> converged := False, S_a_inv := Val Sa_inv,
            K_i := replicate (nat maxIter) PyZero, K_b_i := replicate (nat maxIter) PyZero,
            x_i := (replicate (nat maxIter + 1) PyZero)
                     [0 := Val (case x_0 of None \<Rightarrow> x_a p | Some v \<Rightarrow> v)],
            y_i := (replicate (nat maxIter + 1) PyZero)
                     [0 := Val (forward p ((case x_0 of None \<Rightarrow> x_a p | Some v \<Rightarrow> v) @ b_p p))],
            dgf_i := replicate (nat maxIter) (Fin 0), H_i := replicate (nat maxIter) (Fin 0),
            A_i := replicate (nat maxIter) PyZero, d_i2 := replicate (nat maxIter) (Fin 0),
            S_aposterior_i := replicate (nat maxIter) PyZero, gam_i := gam,
            warned := warned s @ w \<rparr>) = Inr (i, c, s1)"
    by (auto simp: retrieval_loop_def Let_def split: sum.splits)
  from initial_gam_length[OF g] have "length gam = nat maxIter" .
  then have "entering p (nat maxIter) 0
       (s\<lparr> converged := False, S_a_inv := Val Sa_inv,
            K_i := replicate (nat maxIter) PyZero, K_b_i := replicate (nat maxIter) PyZero,
            x_i := (replicate (nat maxIter + 1) PyZero)
                     [0 := Val (case x_0 of None \<Rightarrow> x_a p | Some v \<Rightarrow> v)],
            y_i := (replicate (nat maxIter + 1) PyZero)
                     [0 := Val (forward p ((case x_0 of None \<Rightarrow> x_a p | Some v \<Rightarrow> v) @ b_p p))],
            dgf_i := replicate (nat maxIter) (Fin 0), H_i := replicate (nat maxIter) (Fin 0),
            A_i := replicate (nat maxIter) PyZero, d_i2 := replicate (nat maxIter) (Fin 0),
            S_aposterior_i := replicate (nat maxIter) PyZero, gam_i := gam,
            warned := warned s @ w \<rparr>)"
    by (simp add: entering_def allocated_def)
  with l m show ?thesis by blast
qed

lemma finalize_keeps_flag: "finalize p i s1 = Inr r \<Longrightarrow> converged r = converged s1"
  by (auto simp: finalize_def Let_def split: if_splits sum.splits)

lemma finalize_keeps_criterion:
  "finalize p i s1 = Inr r \<Longrightarrow> j \<le> i \<Longrightarrow> criterion p j r = criterion p j s1"
  by (auto simp: finalize_def Let_def criterion_def split: if_splits sum.splits)

lemma finalize_at_index:
  assumes "converged s1" "allocated n s1" "i < n"
    "S_aposterior_i s1 ! i = Val S" "A_i s1 ! i = Val A" "K_b_i s1 ! i = Val Kb"
  shows "\<exists>r. finalize p i s1 = Inr r \<and> converged r \<and> convI r = Val (int i)
     \<and> x_i r ! i = x_i s1 ! i \<and> y_i r ! i = y_i s1 ! i \<and> K_i r ! i = K_i s1 ! i
     \<and> K_b_i r ! i = Val Kb \<and> A_i r ! i = Val A
     \<and> x_op r = x_i s1 ! i \<and> y_op r = y_i s1 ! i \<and> S_op r = Val S
     \<and> x_op_err r = Val (map fsqrt (diag S)) \<and> dgf_x r = Val (diag A)"
  using assms by (simp add: finalize_def Let_def val_def)

text \<open>
  A run whose loop ends at the confirmation pass \<open>i\<close> (the \<open>Done\<close> break): \<open>i\<close> is at
  least 2, the criterion was met in pass \<open>i - 1\<close>, and the run returns converged with
  \<open>convI = i\<close> and \<open>x_op = x_i[i]\<close>, the state that pass \<open>i - 1\<close> stored after the bound
  repair; the Jacobian \<open>K_i[i]\<close>, \<open>S_op\<close> and the averaging kernel \<open>A_i[i]\<close> were set
  in pass \<open>i\<close>, the Jacobian from \<open>x_op\<close> and \<open>y_op\<close>.
\<close>

theorem confirmation_pass:
  assumes "retrieval_loop nl elapsed p s maxIter x_0 maxTime = Inr (i, BreakDone, s1)"
  shows "2 \<le> i \<and> int i < maxIter \<and> criterion p (i - 1) s1
     \<and> (\<exists>r xo yo x_next Kx Kb S A.
           doRetrieval nl elapsed p s maxIter x_0 maxTime = Inr r \<and> converged r
           \<and> convI r = Val (int i) \<and> x_i r ! i = Val xo \<and> x_op r = Val xo
           \<and> xo = fst (boundRepair p (i - 1) x_next)
           \<and> y_op r = Val yo \<and> getJacobian p (xo @ b_p p) yo = Inr (Kx, Kb)
           \<and> K_i r ! i = Val Kx \<and> K_b_i r ! i = Val Kb
           \<and> S_op r = Val S \<and> A_i r ! i = Val A \<and> dgf_x r = Val (diag A))"
proof -
  from retrieval_loop_setup[OF assms] obtain s0 where m: "0 < maxIter"
    and l: "for_loop (loop_body nl elapsed p maxTime) [0..<nat maxIter] 0 s0 = Inr (i, BreakDone, s1)"
    and e: "entering p (nat maxIter) 0 s0" by blast
  from for_loop_invariant[OF l e] have c: "confirmed p (nat maxIter) i s1" by simp
  then obtain xo yo Kx Kb x_next S A where
    i: "2 \<le> i" "i < nat maxIter" and cv: "converged s1" and cr: "criterion p (i - 1) s1"
    and al: "allocated (nat maxIter) s1"
    and f: "x_i s1 ! i = Val xo" "xo = fst (boundRepair p (i - 1) x_next)" "y_i s1 ! i = Val yo"
      "getJacobian p (xo @ b_p p) yo = Inr (Kx, Kb)" "K_i s1 ! i = Val Kx" "K_b_i s1 ! i = Val Kb"
      "S_aposterior_i s1 ! i = Val S" "A_i s1 ! i = Val A"
    unfolding confirmed_def by blast
  from finalize_at_index[OF cv al i(2) f(7) f(8) f(6), of p] obtain r where
    r: "finalize p i s1 = Inr r" "converged r" "convI r = Val (int i)"
      "x_i r ! i = x_i s1 ! i" "K_i r ! i = K_i s1 ! i" "K_b_i r ! i = Val Kb" "A_i r ! i = Val A"
      "x_op r = x_i s1 ! i" "y_op r = y_i s1 ! i" "S_op r = Val S" "dgf_x r = Val (diag A)"
    by blast
  have d: "doRetrieval nl elapsed p s maxIter x_0 maxTime = Inr r"
    using assms r(1) by (simp add: doRetrieval_def)
  have "\<exists>r xo yo x_next Kx Kb S A.
           doRetrieval nl elapsed p s maxIter x_0 maxTime = Inr r \<and> converged r
           \<and> convI r = Val (int i) \<and> x_i r ! i = Val xo \<and> x_op r = Val xo
           \<and> xo = fst (boundRepair p (i - 1) x_next)
           \<and> y_op r = Val yo \<and> getJacobian p (xo @ b_p p) yo = Inr (Kx, Kb)
           \<and> K_i r ! i = Val Kx \<and> K_b_i r ! i = Val Kb
           \<and> S_op r = Val S \<and> A_i r ! i = Val A \<and> dgf_x r = Val (diag A)"
    using d r f by (intro exI[of _ r] exI[of _ xo] exI[of _ yo] exI[of _ x_next] exI[of _ Kx]
        exI[of _ Kb] exI[of _ S] exI[of _ A]) simp
  with i cr show ?thesis by simp
qed

text \<open>
  Every run that returns converged has \<open>convI = i\<close> with \<open>1 \<le> i < maxIter\<close>: either the
  criterion was met in pass \<open>i - 1\<close> and pass \<open>i \<ge> 2\<close> confirmed it, or the criterion was
  met in pass \<open>i = maxIter - 1\<close>, the last one, and no pass followed.
\<close>

theorem converged_run:
  assumes "doRetrieval nl elapsed p s maxIter x_0 maxTime = Inr r" "converged r"
  shows "\<exists>i. convI r = Val (int i) \<and> 1 \<le> i \<and> int i < maxIter
     \<and> ((2 \<le> i \<and> criterion p (i - 1) r) \<or> (int i = maxIter - 1 \<and> criterion p i r))"
proof -
  from assms(1) obtain i c s1 where
    lp: "retrieval_loop nl elapsed p s maxIter x_0 maxTime = Inr (i, c, s1)"
    and fz: "finalize p i s1 = Inr r"
    by (auto simp: doRetrieval_def split: sum.splits)
  from finalize_keeps_flag[OF fz] assms(2) have cv: "converged s1" by simp
  from finalize_converged[OF fz assms(2)] have ci: "convI r = Val (int i)" by simp
  from retrieval_loop_setup[OF lp] obtain s0 where m: "0 < maxIter"
    and l: "for_loop (loop_body nl elapsed p maxTime) [0..<nat maxIter] 0 s0 = Inr (i, c, s1)"
    and e: "entering p (nat maxIter) 0 s0" by blast
  note inv = for_loop_invariant[OF l e]
  from for_loop_break[OF l] cv have nb: "c = BreakDone \<or> c = Continue" by (cases c) auto
  then show ?thesis
  proof
    assume "c = BreakDone"
    with inv have "confirmed p (nat maxIter) i s1" by simp
    then have i: "2 \<le> i" "i < nat maxIter" "criterion p (i - 1) s1" by (simp_all add: confirmed_def)
    from finalize_keeps_criterion[OF fz, of "i - 1"] i have "criterion p (i - 1) r" by simp
    with ci i show ?thesis by (intro exI[of _ i]) auto
  next
    assume "c = Continue"
    with inv cv m have i: "i = nat maxIter - 1" "1 \<le> i" "criterion p i s1" by auto
    from finalize_keeps_criterion[OF fz, of i] i have "criterion p i r" by simp
    with ci i m show ?thesis by (intro exI[of _ i]) auto
  qed
qed


lemma loop_1d_3:
  "\<exists>s1. retrieval_loop (numlib_1x1 isf) (\<lambda>i. Fin 0) problem_1d new_engine 3 None (Fin 10000000)
     = Inr (2, BreakDone, s1)"
  by (simp add: eval_1d)

theorem confirmation_pass_witness:
  "\<exists>s1. retrieval_loop (numlib_1x1 (\<lambda>p n. NaN)) (\<lambda>i. Fin 0) problem_1d new_engine 3 None (Fin 10000000)
       = Inr (2, BreakDone, s1)
     \<and> criterion problem_1d 1 s1
     \<and> (\<exists>r xo yo Kx Kb. doRetrieval (numlib_1x1 (\<lambda>p n. NaN)) (\<lambda>i. Fin 0) problem_1d new_engine 3 None
             (Fin 10000000) = Inr r
           \<and> converged r \<and> convI r = Val 2 \<and> x_i r ! 2 = Val xo \<and> x_op r = Val xo
           \<and> y_op r = Val yo \<and> getJacobian problem_1d (xo @ b_p problem_1d) yo = Inr (Kx, Kb)
           \<and> K_i r ! 2 = Val Kx)"
proof -
  from loop_1d_3 obtain s1 where
    l: "retrieval_loop (numlib_1x1 (\<lambda>p n. NaN)) (\<lambda>i. Fin 0) problem_1d new_engine 3 None (Fin 10000000)
       = Inr (2, BreakDone, s1)" by blast
  from confirmation_pass [OF l] l show ?thesis by auto
qed

theorem converged_run_witness:
  "doRetrieval (numlib_1x1 (\<lambda>p n. NaN)) (\<lambda>i. Fin 0) problem_1d new_engine 3 None (Fin 10000000)
       = Inr result_1d_3
     \<and> converged result_1d_3
     \<and> (\<exists>i. convI result_1d_3 = Val (int i) \<and> 1 \<le> i \<and> int i < 3
          \<and> (2 \<le> i \<and> criterion problem_1d (i - 1) result_1d_3
               \<or> int i = 3 - 1 \<and> criterion problem_1d i result_1d_3))"
proof -
  have c: "converged result_1d_3" by (simp add: result_1d_3_def)
  from converged_run [OF run_1d_3 c] run_1d_3 c show ?thesis by simp
qed

section \<open>Convergence in the last pass\<close>

text \<open>
  C1.  The run of the one-dimensional problem with \<open>maxIter = 2\<close>: pass 1 is the first
  (and only) pass that meets the criterion, with \<open>d_i2[1] = 1/128\<close>, and it produces the
  state \<open>x_i[2] = 15/16\<close>; it is also the last pass, so no confirmation pass runs (no
  \<open>Done\<close> notice is printed).  The run returns converged with \<open>convI = 1\<close> and
  \<open>x_op = x_i[1] = 1\<close>, the state produced by pass 0, not the state produced by the pass
  that met the criterion.
\<close>

theorem convergence_on_last_pass:
  "\<exists>r. doRetrieval (numlib_1x1 (\<lambda>p n. NaN)) (\<lambda>i. Fin 0) problem_1d new_engine 2 None (Fin 10000000) = Inr r
     \<and> converged r \<and> convI r = Val 1 \<and> printed r = [CriteriaFulfilled 1]
     \<and> x_op r = Val [Fin 1] \<and> x_i r ! 1 = Val [Fin 1] \<and> x_i r ! 2 = Val [Fin (15 / 16)]
     \<and> d_i2 r = [Fin 2, Fin (1 / 128)]"
  by (simp add: run_1d_2)

text \<open>
  C10.  The same run returns converged with \<open>convI = 1\<close> after two passes of the loop,
  with \<open>maxIter = 2\<close>.
\<close>

theorem converged_in_two_passes:
  "\<exists>r. doRetrieval (numlib_1x1 (\<lambda>p n. NaN)) (\<lambda>i. Fin 0) problem_1d new_engine 2 None (Fin 10000000) = Inr r
     \<and> converged r \<and> convI r = Val 1 \<and> length (K_i r) = 2 \<and> length (x_i r) = 3"
  by (simp add: run_1d_2)


end
